theory Spec2Isabelle
  imports Complex_Main "HOL-Library.Word"
begin

unbundle bit_operations_syntax

section \<open>The scan-fill triangulator of \<^verbatim>\<open>blenlib/intern/scanfill.cc\<close>\<close>

text \<open>
  A shallow embedding of the sweep-line polygon filler.  Pointers to vertices and edges
  are indices into two stores (the arena); the intrusive linked lists of the source are
  lists of such indices.  Coordinates are real numbers: the rounding of \<^verbatim>\<open>float\<close>
  arithmetic is not modelled.  Unsigned counters keep their width (\<^verbatim>\<open>uint\<close> is
  \<^typ>\<open>32 word\<close>, \<^verbatim>\<open>ushort\<close> is \<^typ>\<open>16 word\<close>, \<^verbatim>\<open>uchar\<close> is \<^typ>\<open>8 word\<close>).
  The status fields \<^verbatim>\<open>f\<close> of vertices and edges only ever hold the constants below and
  are compared for equality; they are natural numbers here.
\<close>

subsection \<open>Data\<close>

type_synonym vec2 = "real \<times> real"
type_synonym vec3 = "real \<times> real \<times> real"
type_synonym vref = nat
type_synonym eref = nat

text \<open>
  The structs \<^verbatim>\<open>ScanFillVert\<close>, \<^verbatim>\<open>ScanFillEdge\<close>, \<^verbatim>\<open>ScanFillFace\<close> and
  \<^verbatim>\<open>ScanFillContext\<close> are declared in the header \<^verbatim>\<open>BLI_scanfill.h\<close>; the fields are the
  ones \<^verbatim>\<open>scanfill.cc\<close> reads and writes.  The field \<^verbatim>\<open>f\<close> is \<open>vert_f\<close>, \<open>edge_f\<close>
  and \<open>poly_f\<close> for the three structs that have one, \<^verbatim>\<open>poly_nr\<close> of an edge is
  \<open>edge_poly_nr\<close>, of the context \<open>ctx_poly_nr\<close>.
\<close>

record ScanFillVert =
  tmp_v :: "vref option"
  co :: vec3
  xy :: vec2
  keyindex :: nat
  poly_nr :: "16 word"
  edge_count :: "8 word"
  vert_f :: nat
  user_flag :: nat

record ScanFillEdge =
  v1 :: vref
  v2 :: vref
  edge_poly_nr :: "16 word"
  edge_f :: nat
  edge_user_flag :: nat
  tmp_c :: nat

type_synonym ScanFillFace = "vref \<times> vref \<times> vref"

record ScanFillContext =
  vert_store :: "ScanFillVert list"
  edge_store :: "ScanFillEdge list"
  fillvertbase :: "vref list"
  filledgebase :: "eref list"
  fillfacebase :: "ScanFillFace list"
  ctx_poly_nr :: "16 word"

record PolyFill =
  edges :: "32 word"
  verts :: "32 word"
  min_xy :: vec2
  max_xy :: vec2
  nr :: "16 word"
  poly_f :: "8 word"

text \<open>A scan-link: the vertex and the list of edges open at it (\<^verbatim>\<open>edge_first\<close> \<dots> \<^verbatim>\<open>edge_last\<close>).\<close>

record ScanFillVertLink =
  vert :: vref
  edge_list :: "eref list"

definition SF_VERT_NEW :: nat where "SF_VERT_NEW = 0"
definition SF_VERT_AVAILABLE :: nat where "SF_VERT_AVAILABLE = 1"
definition SF_VERT_ZERO_LEN :: nat where "SF_VERT_ZERO_LEN = 2"

definition SF_EDGE_NEW :: nat where "SF_EDGE_NEW = 0"
definition SF_EDGE_INTERNAL :: nat where "SF_EDGE_INTERNAL = 2"

definition SF_POLY_NEW :: "8 word" where "SF_POLY_NEW = 0"
definition SF_POLY_VALID :: "8 word" where "SF_POLY_VALID = 1"

definition SF_EPSILON :: real where "SF_EPSILON = 3 / 100000"
definition SF_EPSILON_SQ :: real where "SF_EPSILON_SQ = SF_EPSILON * SF_EPSILON"

text \<open>
  Constants of \<^verbatim>\<open>BLI_scanfill.h\<close>: \<^verbatim>\<open>SF_POLY_UNSET\<close> is \<^verbatim>\<open>(ushort)-1\<close>, and the
  flags of \<^verbatim>\<open>BLI_scanfill_calc_ex\<close> are distinct single bits.
\<close>

definition SF_POLY_UNSET :: "16 word" where "SF_POLY_UNSET = - 1"

definition BLI_SCANFILL_CALC_REMOVE_DOUBLES :: int where "BLI_SCANFILL_CALC_REMOVE_DOUBLES = 2"
definition BLI_SCANFILL_CALC_POLYS :: int where "BLI_SCANFILL_CALC_POLYS = 4"
definition BLI_SCANFILL_CALC_HOLES :: int where "BLI_SCANFILL_CALC_HOLES = 8"
definition BLI_SCANFILL_CALC_LOOSE :: int where "BLI_SCANFILL_CALC_LOOSE = 16"

definition flag_set :: "int \<Rightarrow> int \<Rightarrow> bool" where
  "flag_set flag b = (flag AND b \<noteq> 0)"

subsection \<open>Access to the stores\<close>

definition vert_at :: "ScanFillContext \<Rightarrow> vref \<Rightarrow> ScanFillVert" where
  "vert_at c v = vert_store c ! v"

definition edge_at :: "ScanFillContext \<Rightarrow> eref \<Rightarrow> ScanFillEdge" where
  "edge_at c e = edge_store c ! e"

definition vert_upd :: "vref \<Rightarrow> (ScanFillVert \<Rightarrow> ScanFillVert) \<Rightarrow> ScanFillContext \<Rightarrow> ScanFillContext" where
  "vert_upd v g c = c\<lparr>vert_store := (vert_store c)[v := g (vert_store c ! v)]\<rparr>"

definition edge_upd :: "eref \<Rightarrow> (ScanFillEdge \<Rightarrow> ScanFillEdge) \<Rightarrow> ScanFillContext \<Rightarrow> ScanFillContext" where
  "edge_upd e g c = c\<lparr>edge_store := (edge_store c)[e := g (edge_store c ! e)]\<rparr>"

subsection \<open>The comparison function of the sort\<close>

definition vergscdata :: "ScanFillContext \<Rightarrow> ScanFillVertLink \<Rightarrow> ScanFillVertLink \<Rightarrow> int" where
  "vergscdata c x1 x2 =
     (let a = xy (vert_at c (vert x1)); b = xy (vert_at c (vert x2)) in
      if snd a < snd b then 1
      else if snd a > snd b then - 1
      else if fst a > fst b then 1
      else if fst a < fst b then - 1
      else 0)"

text \<open>
  \<^verbatim>\<open>qsort\<close> and \<^verbatim>\<open>bsearch\<close> are the C library's.  The sort of the first \<open>nmemb\<close>
  elements is modelled by insertion (an element goes before the first one it does not
  compare greater than), the search is the binary search over the half-open range
  \<open>[l, u)\<close> probing the middle.
\<close>

fun qsort_insert :: "('a \<Rightarrow> 'a \<Rightarrow> int) \<Rightarrow> 'a \<Rightarrow> 'a list \<Rightarrow> 'a list" where
  "qsort_insert cmp x [] = [x]"
| "qsort_insert cmp x (y # ys) = (if cmp x y \<le> 0 then x # y # ys else y # qsort_insert cmp x ys)"

definition qsort :: "('a \<Rightarrow> 'a \<Rightarrow> int) \<Rightarrow> nat \<Rightarrow> 'a list \<Rightarrow> 'a list" where
  "qsort cmp nmemb base = foldr (qsort_insert cmp) (take nmemb base) [] @ drop nmemb base"

function bsearch_from :: "('a \<Rightarrow> 'a \<Rightarrow> int) \<Rightarrow> 'a \<Rightarrow> 'a list \<Rightarrow> nat \<Rightarrow> nat \<Rightarrow> nat option" where
  "bsearch_from cmp key base l u =
     (if l < u then
        (let idx = (l + u) div 2; r = cmp key (base ! idx) in
         if r < 0 then bsearch_from cmp key base l idx
         else if r > 0 then bsearch_from cmp key base (idx + 1) u
         else Some idx)
      else None)"
  by pat_completeness auto
termination
  by (relation "measure (\<lambda>(cmp, key, base, l, u). u - l)") auto

declare bsearch_from.simps [simp del]

definition bsearch :: "('a \<Rightarrow> 'a \<Rightarrow> int) \<Rightarrow> 'a \<Rightarrow> 'a list \<Rightarrow> nat \<Rightarrow> nat option" where
  "bsearch cmp key base nmemb = bsearch_from cmp key base 0 nmemb"

subsection \<open>Adding vertices, edges and faces\<close>

definition BLI_scanfill_vert_add :: "ScanFillContext \<Rightarrow> vec3 \<Rightarrow> vref \<times> ScanFillContext" where
  "BLI_scanfill_vert_add c vec =
     (let sf_v = length (vert_store c) in
      (sf_v, c\<lparr>vert_store := vert_store c @
                 [\<lparr>tmp_v = None, co = vec, xy = (0, 0), keyindex = 0, poly_nr = ctx_poly_nr c,
                   edge_count = 0, vert_f = SF_VERT_NEW, user_flag = 0\<rparr>],
               fillvertbase := fillvertbase c @ [sf_v]\<rparr>))"

definition BLI_scanfill_edge_add :: "ScanFillContext \<Rightarrow> vref \<Rightarrow> vref \<Rightarrow> eref \<times> ScanFillContext" where
  "BLI_scanfill_edge_add c a b =
     (let sf_ed = length (edge_store c) in
      (sf_ed, c\<lparr>edge_store := edge_store c @
                  [\<lparr>v1 = a, v2 = b, edge_poly_nr = ctx_poly_nr c, edge_f = SF_EDGE_NEW,
                    edge_user_flag = 0, tmp_c = 0\<rparr>],
                filledgebase := filledgebase c @ [sf_ed]\<rparr>))"

definition addfillface :: "ScanFillContext \<Rightarrow> vref \<Rightarrow> vref \<Rightarrow> vref \<Rightarrow> ScanFillContext" where
  "addfillface c a b d = c\<lparr>fillfacebase := fillfacebase c @ [(a, b, d)]\<rparr>"

subsection \<open>Bounding boxes and the merge of islands\<close>

definition boundisect :: "PolyFill \<Rightarrow> PolyFill \<Rightarrow> bool" where
  "boundisect pf2 pf1 =
     (if edges pf1 = 0 \<or> edges pf2 = 0 then False
      else if fst (max_xy pf2) < fst (min_xy pf1) then False
      else if snd (max_xy pf2) < snd (min_xy pf1) then False
      else if fst (min_xy pf2) > fst (max_xy pf1) then False
      else if snd (min_xy pf2) > snd (max_xy pf1) then False
      else True)"

text \<open>
  \<^verbatim>\<open>fill_target_map_recursive\<close> is a \<^verbatim>\<open>for\<close> loop over \<open>pf_b_index\<close> that calls the
  function again inside.  \<open>fill_target_map_loop\<close> is the loop from a given
  \<open>pf_b_index\<close> on; the array \<^verbatim>\<open>target_map\<close> is a function from indices.
\<close>

function fill_target_map_loop ::
  "PolyFill list \<Rightarrow> nat \<Rightarrow> nat \<Rightarrow> nat \<Rightarrow> nat \<Rightarrow> (nat \<Rightarrow> nat) \<Rightarrow> (nat \<Rightarrow> nat)" where
  "fill_target_map_loop pf_list pf_len pf_target pf_test pf_b_index target_map =
     (if pf_b_index < pf_len then
        (if target_map pf_b_index \<noteq> pf_b_index then
           fill_target_map_loop pf_list pf_len pf_target pf_test (pf_b_index + 1) target_map
         else if boundisect (pf_list ! pf_test) (pf_list ! pf_b_index) then
           fill_target_map_loop pf_list pf_len pf_target pf_test (pf_b_index + 1)
             (fill_target_map_loop pf_list pf_len pf_target pf_b_index (pf_target + 1)
                (target_map(pf_b_index := pf_target)))
         else fill_target_map_loop pf_list pf_len pf_target pf_test (pf_b_index + 1) target_map)
      else target_map)"
  by pat_completeness auto

definition unmerged :: "nat \<Rightarrow> nat \<Rightarrow> (nat \<Rightarrow> nat) \<Rightarrow> nat set" where
  "unmerged pf_len pf_target target_map = {i. pf_target < i \<and> i < pf_len \<and> target_map i = i}"

lemma finite_unmerged [simp]: "finite (unmerged n t tm)"
  by (simp add: unmerged_def)

lemma fill_target_map_loop_unmerged:
  "fill_target_map_loop_dom (pfl, n, t, test, b, tm) \<Longrightarrow>
   unmerged n t (fill_target_map_loop pfl n t test b tm) \<subseteq> unmerged n t tm"
proof (induct pfl n t test b tm rule: fill_target_map_loop.pinduct)
  case (1 pfl n t test b tm)
  show ?case
  proof (cases "b < n")
    case False
    with 1(1) show ?thesis by (simp add: fill_target_map_loop.psimps)
  next
    case bn: True
    show ?thesis
    proof (cases "tm b \<noteq> b")
      case True
      with bn 1(1) 1(2) show ?thesis by (simp add: fill_target_map_loop.psimps)
    next
      case root: False
      show ?thesis
      proof (cases "boundisect (pfl ! test) (pfl ! b)")
        case False
        with bn root 1(1) 1(5) show ?thesis by (simp add: fill_target_map_loop.psimps)
      next
        case True
        let ?tm1 = "tm(b := t)"
        let ?tm2 = "fill_target_map_loop pfl n t b (t + 1) ?tm1"
        have a: "unmerged n t ?tm2 \<subseteq> unmerged n t ?tm1"
          by (rule 1(3)) (use bn root True in simp_all)
        have b: "unmerged n t (fill_target_map_loop pfl n t test (b + 1) ?tm2) \<subseteq> unmerged n t ?tm2"
          by (rule 1(4)) (use bn root True in simp_all)
        have c: "unmerged n t ?tm1 \<subseteq> unmerged n t tm"
          using root by (auto simp: unmerged_def)
        have "fill_target_map_loop pfl n t test b tm = fill_target_map_loop pfl n t test (b + 1) ?tm2"
          using bn root True 1(1) by (simp add: fill_target_map_loop.psimps)
        with a b c show ?thesis by auto
      qed
    qed
  qed
qed

termination fill_target_map_loop
proof (relation "(\<lambda>(pfl, n, t, test, b, tm). card (unmerged n t tm)) <*mlex*> measure (\<lambda>(pfl, n, t, test, b, tm). n - b)",
       goal_cases)
  case 1
  then show ?case by (simp add: wf_mlex)
next
  case (2 pfl n t test b tm)
  then show ?case by (auto intro!: mlex_leq)
next
  case (3 pfl n t test b tm)
  show ?case
  proof (cases "t < b")
    case True
    have "unmerged n t (tm(b := t)) \<subset> unmerged n t tm"
      using 3 True by (auto simp: unmerged_def)
    then have "card (unmerged n t (tm(b := t))) < card (unmerged n t tm)"
      by (simp add: psubset_card_mono)
    then show ?thesis by (auto intro!: mlex_less)
  next
    case False
    have "unmerged n t (tm(b := t)) = unmerged n t tm"
      using 3 False by (auto simp: unmerged_def)
    with 3 False show ?thesis by (auto intro!: mlex_leq)
  qed
next
  case (4 pfl n t test b tm)
  have "unmerged n t (fill_target_map_loop pfl n t b (t + 1) (tm(b := t))) \<subseteq> unmerged n t (tm(b := t))"
    using 4 by (intro fill_target_map_loop_unmerged) simp
  also have "\<dots> \<subseteq> unmerged n t tm"
    using 4 by (auto simp: unmerged_def)
  finally have "card (unmerged n t (fill_target_map_loop pfl n t b (t + 1) (tm(b := t)))) \<le> card (unmerged n t tm)"
    by (simp add: card_mono)
  with 4 show ?case by (auto intro!: mlex_leq)
next
  case (5 pfl n t test b tm)
  then show ?case by (auto intro!: mlex_leq)
qed

declare fill_target_map_loop.simps [simp del]

definition fill_target_map_recursive ::
  "PolyFill list \<Rightarrow> nat \<Rightarrow> nat \<Rightarrow> nat \<Rightarrow> (nat \<Rightarrow> nat) \<Rightarrow> (nat \<Rightarrow> nat)" where
  "fill_target_map_recursive pf_list pf_len pf_target pf_test target_map =
     fill_target_map_loop pf_list pf_len pf_target pf_test (pf_target + 1) target_map"

text \<open>
  \<^verbatim>\<open>mergepolysSimp\<close> gets two pointers into the array of islands: \<open>i1\<close> and \<open>i2\<close> are
  their indices (\<open>pf1\<close> is the destination).
\<close>

definition mergepolysSimp ::
  "ScanFillContext \<Rightarrow> PolyFill list \<Rightarrow> nat \<Rightarrow> nat \<Rightarrow> ScanFillContext \<times> PolyFill list" where
  "mergepolysSimp c pflist i1 i2 =
     (let pf1 = pflist ! i1; pf2 = pflist ! i2;
          c1 = fold (\<lambda>eve c. if poly_nr (vert_at c eve) = nr pf2
                              then vert_upd eve (\<lambda>r. r\<lparr>poly_nr := nr pf1\<rparr>) c else c)
                 (fillvertbase c) c;
          c2 = fold (\<lambda>eed c. if edge_poly_nr (edge_at c eed) = nr pf2
                              then edge_upd eed (\<lambda>r. r\<lparr>edge_poly_nr := nr pf1\<rparr>) c else c)
                 (filledgebase c1) c1;
          pf1' = pf1\<lparr>verts := verts pf1 + verts pf2,
                     edges := edges pf1 + edges pf2,
                     max_xy := (max (fst (max_xy pf1)) (fst (max_xy pf2)),
                                max (snd (max_xy pf1)) (snd (max_xy pf2))),
                     min_xy := (min (fst (min_xy pf1)) (fst (min_xy pf2)),
                                min (snd (min_xy pf1)) (snd (min_xy pf2))),
                     poly_f := poly_f pf1 OR poly_f pf2\<rparr>;
          pflist1 = pflist[i1 := pf1']
      in (c2, pflist1[i2 := (pflist1 ! i2)\<lparr>verts := 0, edges := 0\<rparr>]))"

subsection \<open>Vector helpers\<close>

text \<open>
  The helpers of \<^verbatim>\<open>BLI_math\<close> are not part of \<^verbatim>\<open>scanfill.cc\<close>.  The ones that are plain
  component-wise arithmetic are written out; the four that involve more (the
  normalisation, the basis of the projection plane, the distance to a line and the cosine
  of an angle) are parameters of the model, collected in a record.
\<close>

type_synonym mat3 = "vec3 \<times> vec3 \<times> vec3"

record mathlib =
  normalize_v3 :: "vec3 \<Rightarrow> real \<times> vec3"
  axis_dominant_v3_to_m3_negate :: "vec3 \<Rightarrow> mat3"
  dist_squared_to_line_v2 :: "vec2 \<Rightarrow> vec2 \<Rightarrow> vec2 \<Rightarrow> real"
  cos_v2v2v2 :: "vec2 \<Rightarrow> vec2 \<Rightarrow> vec2 \<Rightarrow> real"

definition equals_v2v2 :: "vec2 \<Rightarrow> vec2 \<Rightarrow> bool" where
  "equals_v2v2 a b = (fst a = fst b \<and> snd a = snd b)"

definition compare_v2v2 :: "vec2 \<Rightarrow> vec2 \<Rightarrow> real \<Rightarrow> bool" where
  "compare_v2v2 a b limit = (\<bar>fst a - fst b\<bar> \<le> limit \<and> \<bar>snd a - snd b\<bar> \<le> limit)"

fun compare_v3v3 :: "vec3 \<Rightarrow> vec3 \<Rightarrow> real \<Rightarrow> bool" where
  "compare_v3v3 (a0, a1, a2) (b0, b1, b2) limit =
     (\<bar>a0 - b0\<bar> \<le> limit \<and> \<bar>a1 - b1\<bar> \<le> limit \<and> \<bar>a2 - b2\<bar> \<le> limit)"

fun add_newell_cross_v3_v3v3 :: "vec3 \<Rightarrow> vec3 \<Rightarrow> vec3 \<Rightarrow> vec3" where
  "add_newell_cross_v3_v3v3 (n0, n1, n2) (p0, p1, p2) (c0, c1, c2) =
     (n0 + (p1 - c1) * (p2 + c2), n1 + (p2 - c2) * (p0 + c0), n2 + (p0 - c0) * (p1 + c1))"

fun mul_v2_m3v3 :: "mat3 \<Rightarrow> vec3 \<Rightarrow> vec2" where
  "mul_v2_m3v3 ((m00, m01, m02), (m10, m11, m12), (m20, m21, m22)) (a0, a1, a2) =
     (m00 * a0 + m10 * a1 + m20 * a2, m01 * a0 + m11 * a1 + m21 * a2)"

definition min_ff :: "real \<Rightarrow> real \<Rightarrow> real" where
  "min_ff a b = (if a < b then a else b)"

subsection \<open>Side test and insertion of an edge into a scan-link\<close>

definition testedgeside :: "vec2 \<Rightarrow> vec2 \<Rightarrow> vec2 \<Rightarrow> bool" where
  "testedgeside p1 p2 p3 =
     (let inp = (fst p2 - fst p1) * (snd p1 - snd p3) + (snd p1 - snd p2) * (fst p1 - fst p3) in
      if inp < 0 then False
      else if inp = 0 \<and> fst p1 = fst p3 \<and> snd p1 = snd p3 then False
      else if inp = 0 \<and> fst p2 = fst p3 \<and> snd p2 = snd p3 then False
      else True)"

text \<open>The slope key \<^verbatim>\<open>fac\<close> of an edge seen from the point \<open>(x, y)\<close>.\<close>

definition edge_fac :: "ScanFillContext \<Rightarrow> real \<Rightarrow> real \<Rightarrow> eref \<Rightarrow> real" where
  "edge_fac c x y ed =
     (let p = xy (vert_at c (v2 (edge_at c ed)));
          fac = snd p - y in
      if fac = 0 then 10000000000 * (fst p - x) else (x - fst p) / fac)"

text \<open>
  The \<^verbatim>\<open>for\<close> loop of \<^verbatim>\<open>addedgetoscanvert\<close> with the insertion after it: \<open>None\<close> when an
  edge with the same \<^verbatim>\<open>v2\<close> is met (the function returns false), the new list otherwise.
\<close>

fun addedgetoscanvert_loop ::
  "ScanFillContext \<Rightarrow> eref \<Rightarrow> real \<Rightarrow> real \<Rightarrow> real \<Rightarrow> eref list \<Rightarrow> eref list option" where
  "addedgetoscanvert_loop c eed x y fac1 [] = Some [eed]"
| "addedgetoscanvert_loop c eed x y fac1 (ed # eds) =
     (if v2 (edge_at c ed) = v2 (edge_at c eed) then None
      else if edge_fac c x y ed > fac1 then Some (eed # ed # eds)
      else map_option ((#) ed) (addedgetoscanvert_loop c eed x y fac1 eds))"

definition addedgetoscanvert ::
  "ScanFillContext \<Rightarrow> ScanFillVertLink \<Rightarrow> eref \<Rightarrow> bool \<times> ScanFillVertLink" where
  "addedgetoscanvert c sc eed =
     (if edge_list sc = [] then (True, sc\<lparr>edge_list := [eed]\<rparr>)
      else
        (let x = fst (xy (vert_at c (v1 (edge_at c eed))));
             y = snd (xy (vert_at c (v1 (edge_at c eed))));
             fac1 = edge_fac c x y eed in
         case addedgetoscanvert_loop c eed x y fac1 (edge_list sc) of
           None \<Rightarrow> (False, sc)
         | Some l \<Rightarrow> (True, sc\<lparr>edge_list := l\<rparr>)))"

definition swap_edge :: "eref \<Rightarrow> ScanFillContext \<Rightarrow> ScanFillContext" where
  "swap_edge eed c = edge_upd eed (\<lambda>r. r\<lparr>v1 := v2 r, v2 := v1 r\<rparr>) c"

text \<open>
  \<^verbatim>\<open>addedgetoscanlist\<close> returns the index of the scan-link when the edge is already there
  (\<open>Some\<close>), \<open>None\<close> otherwise (\<^verbatim>\<open>nullptr\<close>).
\<close>

definition addedgetoscanlist ::
  "ScanFillContext \<Rightarrow> ScanFillVertLink list \<Rightarrow> eref \<Rightarrow> nat
     \<Rightarrow> ScanFillContext \<times> ScanFillVertLink list \<times> nat option" where
  "addedgetoscanlist c scdata eed len =
     (let a = xy (vert_at c (v1 (edge_at c eed)));
          b = xy (vert_at c (v2 (edge_at c eed)));
          c1 = (if snd a = snd b then (if fst a > fst b then swap_edge eed c else c)
                else if snd a < snd b then swap_edge eed c
                else c);
          scsearch = \<lparr>vert = v1 (edge_at c1 eed), edge_list = []\<rparr>
      in case bsearch (vergscdata c1) scsearch scdata len of
           None \<Rightarrow> (c1, scdata, None)
         | Some i \<Rightarrow>
             (let r = addedgetoscanvert c1 (scdata ! i) eed in
              if fst r then (c1, scdata[i := snd r], None) else (c1, scdata, Some i)))"

subsection \<open>Vertices near an edge\<close>

definition boundinsideEV :: "ScanFillContext \<Rightarrow> eref \<Rightarrow> vref \<Rightarrow> bool" where
  "boundinsideEV c eed eve =
     (let a = xy (vert_at c (v1 (edge_at c eed)));
          b = xy (vert_at c (v2 (edge_at c eed)));
          p = xy (vert_at c eve);
          minx = (if fst a < fst b then fst a else fst b);
          maxx = (if fst a < fst b then fst b else fst a);
          miny = (if snd a < snd b then snd a else snd b);
          maxy = (if snd a < snd b then snd b else snd a)
      in if fst p \<ge> minx \<and> fst p \<le> maxx then (snd p \<ge> miny \<and> snd p \<le> maxy) else False)"

datatype fault = NullDeref

text \<open>
  The inner loop of \<^verbatim>\<open>testvertexnearedge\<close> over the edges, for the vertex \<open>eve\<close> and its
  edge \<open>ed1\<close>; each of the three \<^verbatim>\<open>break\<close>s ends it.
\<close>

fun testvertexnearedge_edges ::
  "mathlib \<Rightarrow> vref \<Rightarrow> eref \<Rightarrow> eref list \<Rightarrow> ScanFillContext \<Rightarrow> ScanFillContext" where
  "testvertexnearedge_edges M eve ed1 [] c = c"
| "testvertexnearedge_edges M eve ed1 (eed # rest) c =
     (let e = edge_at c eed; ev = vert_at c eve in
      if eve \<noteq> v1 e \<and> eve \<noteq> v2 e \<and> poly_nr ev = edge_poly_nr e then
        (if compare_v2v2 (xy ev) (xy (vert_at c (v1 e))) SF_EPSILON then
           vert_upd eve (\<lambda>r. r\<lparr>edge_count := 0\<rparr>)
             (vert_upd (v1 e) (\<lambda>r. r\<lparr>edge_count := edge_count r + 1\<rparr>)
                (edge_upd ed1 (\<lambda>r. r\<lparr>v2 := v1 e\<rparr>) c))
         else if compare_v2v2 (xy ev) (xy (vert_at c (v2 e))) SF_EPSILON then
           vert_upd eve (\<lambda>r. r\<lparr>edge_count := 0\<rparr>)
             (vert_upd (v2 e) (\<lambda>r. r\<lparr>edge_count := edge_count r + 1\<rparr>)
                (edge_upd ed1 (\<lambda>r. r\<lparr>v2 := v2 e\<rparr>) c))
         else if boundinsideEV c eed eve
                 \<and> dist_squared_to_line_v2 M (xy (vert_at c (v1 e))) (xy (vert_at c (v2 e))) (xy ev)
                     < SF_EPSILON_SQ then
           (let new = BLI_scanfill_edge_add c (v1 e) eve in
            vert_upd eve (\<lambda>r. r\<lparr>edge_count := 3\<rparr>)
              (edge_upd eed (\<lambda>r. r\<lparr>v1 := eve\<rparr>)
                 (edge_upd (fst new) (\<lambda>r. r\<lparr>edge_poly_nr := edge_poly_nr e\<rparr>) (snd new))))
         else testvertexnearedge_edges M eve ed1 rest c)
      else testvertexnearedge_edges M eve ed1 rest c)"

text \<open>
  The loop over the vertices.  The search for the edge of a vertex with one edge
  dereferences the end of the list when there is none: that is the fault.
\<close>

fun testvertexnearedge_verts ::
  "mathlib \<Rightarrow> vref list \<Rightarrow> ScanFillContext \<Rightarrow> fault + ScanFillContext" where
  "testvertexnearedge_verts M [] c = Inr c"
| "testvertexnearedge_verts M (eve # rest) c =
     (if edge_count (vert_at c eve) = 1 then
        (case find (\<lambda>e. v1 (edge_at c e) = eve \<or> v2 (edge_at c e) = eve) (filledgebase c) of
           None \<Rightarrow> Inl NullDeref
         | Some ed1 \<Rightarrow>
             (let c1 = (if v1 (edge_at c ed1) = eve
                        then edge_upd ed1 (\<lambda>r. r\<lparr>v1 := v2 r, v2 := eve\<rparr>) c else c)
              in testvertexnearedge_verts M rest
                   (testvertexnearedge_edges M eve ed1 (filledgebase c1) c1)))
      else testvertexnearedge_verts M rest c)"

definition testvertexnearedge :: "mathlib \<Rightarrow> ScanFillContext \<Rightarrow> fault + ScanFillContext" where
  "testvertexnearedge M c = testvertexnearedge_verts M (fillvertbase c) c"

subsection \<open>Splitting the lists by island\<close>

text \<open>
  \<^verbatim>\<open>splitlist\<close> moves what is in the fill lists to the end of the temporary lists, and
  the vertices and edges of island \<open>nr\<close> from the temporary lists to the fill lists.
\<close>

definition splitlist ::
  "ScanFillContext \<Rightarrow> vref list \<Rightarrow> eref list \<Rightarrow> 16 word
     \<Rightarrow> ScanFillContext \<times> vref list \<times> eref list" where
  "splitlist c tempve temped n =
     (let tv = tempve @ fillvertbase c;
          te = temped @ filledgebase c
      in (c\<lparr>fillvertbase := filter (\<lambda>eve. poly_nr (vert_at c eve) = n) tv,
            filledgebase := filter (\<lambda>eed. edge_poly_nr (edge_at c eed) = n) te\<rparr>,
          filter (\<lambda>eve. poly_nr (vert_at c eve) \<noteq> n) tv,
          filter (\<lambda>eed. edge_poly_nr (edge_at c eed) \<noteq> n) te))"

subsection \<open>The fill of one island: preparation\<close>

text \<open>Step 0 of \<^verbatim>\<open>scanfill\<close>: the body of the loop that marks zero-length edges.\<close>

definition zero_len_edge :: "eref \<Rightarrow> ScanFillContext \<Rightarrow> ScanFillContext" where
  "zero_len_edge eed c =
     (let a = v1 (edge_at c eed); b = v2 (edge_at c eed) in
      if equals_v2v2 (xy (vert_at c a)) (xy (vert_at c b)) then
        (if vert_f (vert_at c a) = SF_VERT_ZERO_LEN \<and> vert_f (vert_at c b) \<noteq> SF_VERT_ZERO_LEN then
           vert_upd b (\<lambda>r. r\<lparr>vert_f := SF_VERT_ZERO_LEN, tmp_v := tmp_v (vert_at c a)\<rparr>) c
         else if vert_f (vert_at c b) = SF_VERT_ZERO_LEN \<and> vert_f (vert_at c a) \<noteq> SF_VERT_ZERO_LEN then
           vert_upd a (\<lambda>r. r\<lparr>vert_f := SF_VERT_ZERO_LEN, tmp_v := tmp_v (vert_at c b)\<rparr>) c
         else if vert_f (vert_at c b) = SF_VERT_ZERO_LEN \<and> vert_f (vert_at c a) = SF_VERT_ZERO_LEN then
           vert_upd a (\<lambda>r. r\<lparr>tmp_v := tmp_v (vert_at c b)\<rparr>) c
         else vert_upd b (\<lambda>r. r\<lparr>vert_f := SF_VERT_ZERO_LEN, tmp_v := Some a\<rparr>) c)
      else c)"

text \<open>Step 1: the scan-links of the vertices of island \<open>n\<close>, in the order of the vertex list.\<close>

definition collect_vert ::
  "16 word \<Rightarrow> vref \<Rightarrow> ScanFillContext \<times> ScanFillVertLink list \<Rightarrow> ScanFillContext \<times> ScanFillVertLink list" where
  "collect_vert n eve cs =
     (let c = fst cs in
      if poly_nr (vert_at c eve) = n \<and> vert_f (vert_at c eve) \<noteq> SF_VERT_ZERO_LEN
      then (vert_upd eve (\<lambda>r. r\<lparr>vert_f := SF_VERT_NEW\<rparr>) c, snd cs @ [\<lparr>vert = eve, edge_list = []\<rparr>])
      else cs)"

text \<open>
  The \<^verbatim>\<open>while\<close> loop that follows the \<^verbatim>\<open>tmp.v\<close> pointers of collapsed vertices from
  \<open>start\<close>; it can run forever (the source says so), which is the value \<open>None\<close>.
  A null \<^verbatim>\<open>tmp.v\<close> is dereferenced by the next test.
\<close>

partial_function (option) zero_len_chase ::
  "ScanFillContext \<Rightarrow> vref \<Rightarrow> vref \<Rightarrow> (fault + vref) option" where
  "zero_len_chase c start cur =
     (if vert_f (vert_at c cur) = SF_VERT_ZERO_LEN
         \<and> tmp_v (vert_at c cur) \<noteq> Some start \<and> tmp_v (vert_at c cur) \<noteq> Some cur
      then (case tmp_v (vert_at c cur) of
              None \<Rightarrow> Some (Inl NullDeref)
            | Some nxt \<Rightarrow> zero_len_chase c start nxt)
      else Some (Inr cur))"

declare zero_len_chase.simps [code]

definition chase_endpoint :: "ScanFillContext \<Rightarrow> vref \<Rightarrow> (fault + vref) option" where
  "chase_endpoint c a =
     (if vert_f (vert_at c a) = SF_VERT_ZERO_LEN then zero_len_chase c a a else Some (Inr a))"

text \<open>
  The loop that takes every edge out of the edge list and puts it into the scan-link of
  its upper vertex; \<open>rd\<close> is \<^verbatim>\<open>flag & BLI_SCANFILL_CALC_REMOVE_DOUBLES\<close>.
\<close>

definition insert_edge_plain ::
  "nat \<Rightarrow> eref \<Rightarrow> ScanFillContext \<times> ScanFillVertLink list \<Rightarrow> ScanFillContext \<times> ScanFillVertLink list" where
  "insert_edge_plain len eed cs =
     (let c = (fst cs)\<lparr>filledgebase := remove1 eed (filledgebase (fst cs))\<rparr> in
      if v1 (edge_at c eed) \<noteq> v2 (edge_at c eed)
      then (let r = addedgetoscanlist c (snd cs) eed len in (fst r, fst (snd r)))
      else (c, snd cs))"

fun insert_edges ::
  "bool \<Rightarrow> nat \<Rightarrow> eref list \<Rightarrow> ScanFillContext \<times> ScanFillVertLink list
     \<Rightarrow> (fault + ScanFillContext \<times> ScanFillVertLink list) option" where
  "insert_edges rd len [] cs = Some (Inr cs)"
| "insert_edges rd len (eed # rest) cs =
     (if rd then
        (case chase_endpoint (fst cs) (v1 (edge_at (fst cs) eed)) of
           None \<Rightarrow> None
         | Some (Inl e) \<Rightarrow> Some (Inl e)
         | Some (Inr a) \<Rightarrow>
             (let c1 = edge_upd eed (\<lambda>r. r\<lparr>v1 := a\<rparr>) (fst cs) in
              case chase_endpoint c1 (v2 (edge_at c1 eed)) of
                None \<Rightarrow> None
              | Some (Inl e) \<Rightarrow> Some (Inl e)
              | Some (Inr b) \<Rightarrow>
                  insert_edges rd len rest
                    (insert_edge_plain len eed (edge_upd eed (\<lambda>r. r\<lparr>v2 := b\<rparr>) c1, snd cs))))
      else insert_edges rd len rest (insert_edge_plain len eed cs))"

subsection \<open>The fill of one island: the sweep\<close>

record FillState =
  fs_ctx :: ScanFillContext
  fs_scdata :: "ScanFillVertLink list"
  fs_totface :: "32 word"

definition remlink_sc :: "nat \<Rightarrow> eref \<Rightarrow> ScanFillVertLink list \<Rightarrow> ScanFillVertLink list" where
  "remlink_sc a ed scdata = scdata[a := (scdata ! a)\<lparr>edge_list := remove1 ed (edge_list (scdata ! a))\<rparr>]"

definition addtail_edge :: "eref \<Rightarrow> ScanFillContext \<Rightarrow> ScanFillContext" where
  "addtail_edge ed c = c\<lparr>filledgebase := filledgebase c @ [ed]\<rparr>"

definition edge_count_dec :: "vref \<Rightarrow> ScanFillContext \<Rightarrow> ScanFillContext" where
  "edge_count_dec v c = vert_upd v (\<lambda>r. r\<lparr>edge_count := edge_count r - 1\<rparr>) c"

definition edge_count_inc :: "vref \<Rightarrow> ScanFillContext \<Rightarrow> ScanFillContext" where
  "edge_count_inc v c = vert_upd v (\<lambda>r. r\<lparr>edge_count := edge_count r + 1\<rparr>) c"

definition edge_count_dec_gt1 :: "vref \<Rightarrow> ScanFillContext \<Rightarrow> ScanFillContext" where
  "edge_count_dec_gt1 v c = (if edge_count (vert_at c v) > 1 then edge_count_dec v c else c)"

text \<open>
  An edge leaves the scan-link \<open>a\<close> for the edge list, and a degree above one goes down:
  the body shared by the loop that sets the connect flags and the test for loose edges.
\<close>

definition drop_loose_edge :: "nat \<Rightarrow> eref \<Rightarrow> FillState \<Rightarrow> FillState" where
  "drop_loose_edge a ed st =
     (let e = edge_at (fs_ctx st) ed in
      st\<lparr>fs_scdata := remlink_sc a ed (fs_scdata st),
         fs_ctx := edge_count_dec_gt1 (v2 e) (edge_count_dec_gt1 (v1 e) (addtail_edge ed (fs_ctx st)))\<rparr>)"

definition connect_flag_step :: "nat \<Rightarrow> eref \<Rightarrow> FillState \<Rightarrow> FillState" where
  "connect_flag_step a ed st =
     (let c = fs_ctx st; e = edge_at c ed in
      if edge_count (vert_at c (v1 e)) = 1 \<or> edge_count (vert_at c (v2 e)) = 1
      then drop_loose_edge a ed st
      else st\<lparr>fs_ctx := vert_upd (v2 e) (\<lambda>r. r\<lparr>vert_f := SF_VERT_AVAILABLE\<rparr>) c\<rparr>)"

definition connect_flags :: "nat \<Rightarrow> FillState \<Rightarrow> FillState" where
  "connect_flags a st = fold (connect_flag_step a) (edge_list (fs_scdata st ! a)) st"

definition loose_edge_step :: "nat \<Rightarrow> eref \<Rightarrow> FillState \<Rightarrow> FillState" where
  "loose_edge_step a ed st =
     (let c = fs_ctx st; e = edge_at c ed in
      if edge_count (vert_at c (v1 e)) < 2 \<or> edge_count (vert_at c (v2 e)) < 2
      then drop_loose_edge a ed st
      else st)"

definition test_loose_edges :: "nat \<Rightarrow> FillState \<Rightarrow> FillState" where
  "test_loose_edges a st = fold (loose_edge_step a) (edge_list (fs_scdata st ! a)) st"

text \<open>
  An edge of the scan-link \<open>a\<close> is closed: it goes to the edge list, its lower vertex is
  new again and both degrees go down.
\<close>

definition close_edge :: "nat \<Rightarrow> eref \<Rightarrow> FillState \<Rightarrow> FillState" where
  "close_edge a ed st =
     (let e = edge_at (fs_ctx st) ed in
      st\<lparr>fs_scdata := remlink_sc a ed (fs_scdata st),
         fs_ctx := edge_count_dec (v2 e) (edge_count_dec (v1 e)
                     (vert_upd (v2 e) (\<lambda>r. r\<lparr>vert_f := SF_VERT_NEW\<rparr>) (addtail_edge ed (fs_ctx st))))\<rparr>)"

text \<open>The branch for a scan-link with a single edge.\<close>

definition single_edge :: "nat \<Rightarrow> eref \<Rightarrow> FillState \<Rightarrow> FillState" where
  "single_edge a ed1 st =
     (let e = edge_at (fs_ctx st) ed1 in
      st\<lparr>fs_scdata := (fs_scdata st)[a := (fs_scdata st ! a)\<lparr>edge_list := []\<rparr>],
         fs_ctx := edge_count_dec (v2 e) (edge_count_dec (v1 e)
                     (vert_upd (v2 e) (\<lambda>r. r\<lparr>vert_f := SF_VERT_NEW\<rparr>) (addtail_edge ed1 (fs_ctx st))))\<rparr>)"

text \<open>
  The search among the later scan-links \<open>bs\<close> for the vertex inside the triangle
  \<open>p1 p2 p3\<close> with the sharpest corner; \<open>best\<close>, \<open>angle_best_cos\<close> and \<open>firsttime\<close> are the
  locals of the source.
\<close>

fun find_best ::
  "mathlib \<Rightarrow> ScanFillContext \<Rightarrow> ScanFillVertLink list \<Rightarrow> vec2 \<Rightarrow> vec2 \<Rightarrow> vec2 \<Rightarrow> real
     \<Rightarrow> nat list \<Rightarrow> nat option \<Rightarrow> real \<Rightarrow> bool \<Rightarrow> nat option" where
  "find_best M c scdata p1 p2 p3 miny [] best angle_best_cos firsttime = best"
| "find_best M c scdata p1 p2 p3 miny (b # bs) best angle_best_cos firsttime =
     (let w = vert_at c (vert (scdata ! b)) in
      if vert_f w = SF_VERT_NEW then
        (if snd (xy w) \<le> miny then best
         else if testedgeside p1 p2 (xy w) \<and> testedgeside p2 p3 (xy w) \<and> testedgeside p3 p1 (xy w) then
           (case best of
              None \<Rightarrow> find_best M c scdata p1 p2 p3 miny bs (Some b) angle_best_cos firsttime
            | Some bb \<Rightarrow>
                (let abc = (if \<not> firsttime
                            then cos_v2v2v2 M p2 p1 (xy (vert_at c (vert (scdata ! bb))))
                            else angle_best_cos);
                     angle_test_cos = cos_v2v2v2 M p2 p1 (xy w)
                 in if angle_test_cos > abc
                    then find_best M c scdata p1 p2 p3 miny bs (Some b) angle_test_cos True
                    else find_best M c scdata p1 p2 p3 miny bs (Some bb) abc True))
         else find_best M c scdata p1 p2 p3 miny bs best angle_best_cos firsttime)
      else find_best M c scdata p1 p2 p3 miny bs best angle_best_cos firsttime)"

text \<open>A vertex was found inside: the new edge from \<open>vb\<close> to it goes before \<open>ed2\<close>.\<close>

fun insertlinkbefore :: "eref \<Rightarrow> eref \<Rightarrow> eref list \<Rightarrow> eref list" where
  "insertlinkbefore nxt new [] = [new]"
| "insertlinkbefore nxt new (x # xs) = (if x = nxt then new # x # xs else x # insertlinkbefore nxt new xs)"

definition new_edge_to_best :: "nat \<Rightarrow> eref \<Rightarrow> vref \<Rightarrow> nat \<Rightarrow> FillState \<Rightarrow> FillState" where
  "new_edge_to_best a ed2 vb best st =
     (let new = BLI_scanfill_edge_add (fs_ctx st) vb (vert (fs_scdata st ! best));
          ed3 = fst new;
          c1 = snd new;
          c2 = c1\<lparr>filledgebase := remove1 ed3 (filledgebase c1)\<rparr>;
               scdata1 = (fs_scdata st)[a := (fs_scdata st ! a)
                            \<lparr>edge_list := insertlinkbefore ed2 ed3 (edge_list (fs_scdata st ! a))\<rparr>];
               c3 = vert_upd (v2 (edge_at c2 ed3)) (\<lambda>r. r\<lparr>vert_f := SF_VERT_AVAILABLE\<rparr>) c2;
               c4 = edge_upd ed3 (\<lambda>r. r\<lparr>edge_f := SF_EDGE_INTERNAL\<rparr>) c3;
               c5 = edge_count_inc (v2 (edge_at c4 ed3)) (edge_count_inc (v1 (edge_at c4 ed3)) c4)
           in st\<lparr>fs_ctx := c5, fs_scdata := scdata1\<rparr>)"

text \<open>
  No vertex inside: the triangle is added and \<open>ed1\<close> is closed; then \<open>ed2\<close> is closed as
  well when it is a boundary edge and the island is two-connected.
\<close>

definition new_triangle_face :: "nat \<Rightarrow> eref \<Rightarrow> eref \<Rightarrow> FillState \<Rightarrow> FillState" where
  "new_triangle_face a ed1 ed2 st =
     (let c = fs_ctx st in
      close_edge a ed1
        (st\<lparr>fs_ctx := addfillface c (v2 (edge_at c ed1)) (v1 (edge_at c ed1)) (v2 (edge_at c ed2)),
            fs_totface := fs_totface st + 1\<rparr>))"

definition new_triangle_close :: "bool \<Rightarrow> nat \<Rightarrow> eref \<Rightarrow> eref \<Rightarrow> FillState \<Rightarrow> FillState" where
  "new_triangle_close twoconnected a ed1 ed2 st =
     (let st2 = new_triangle_face a ed1 ed2 st
      in if edge_f (edge_at (fs_ctx st2) ed2) = SF_EDGE_NEW \<and> twoconnected
         then close_edge a ed2 st2 else st2)"

text \<open>
  The new edge between the two lower vertices; when an edge between them is already in
  the scan-link, the degrees go back and, for a two-connected island, that edge leaves
  the scan-link \<open>i\<close>.
\<close>

definition remove_existing :: "bool \<Rightarrow> nat \<Rightarrow> vref \<Rightarrow> vref \<Rightarrow> FillState \<Rightarrow> FillState" where
  "remove_existing twoconnected i va vc st =
     (case find (\<lambda>ed. (v1 (edge_at (fs_ctx st) ed) = va \<and> v2 (edge_at (fs_ctx st) ed) = vc)
                     \<or> (v1 (edge_at (fs_ctx st) ed) = vc \<and> v2 (edge_at (fs_ctx st) ed) = va))
             (edge_list (fs_scdata st ! i)) of
        None \<Rightarrow> st
      | Some ed3 \<Rightarrow>
          if twoconnected then
            (let e = edge_at (fs_ctx st) ed3 in
             st\<lparr>fs_scdata := remlink_sc i ed3 (fs_scdata st),
                fs_ctx := edge_count_dec (v2 e) (edge_count_dec (v1 e) (addtail_edge ed3 (fs_ctx st)))\<rparr>)
          else st)"

definition new_edge_v1v3 :: "bool \<Rightarrow> 32 word \<Rightarrow> vref \<Rightarrow> vref \<Rightarrow> FillState \<Rightarrow> FillState" where
  "new_edge_v1v3 twoconnected vertn va vc st =
     (let new = BLI_scanfill_edge_add (fs_ctx st) va vc;
          ed3 = fst new;
          c1 = snd new;
          c2 = c1\<lparr>filledgebase := remove1 ed3 (filledgebase c1)\<rparr>;
          c3 = edge_upd ed3 (\<lambda>r. r\<lparr>edge_f := SF_EDGE_INTERNAL\<rparr>) c2;
          c4 = edge_count_inc (v2 (edge_at c3 ed3)) (edge_count_inc (v1 (edge_at c3 ed3)) c3);
          r = addedgetoscanlist c4 (fs_scdata st) ed3 (unat vertn);
          c5 = fst r;
          scdata1 = fst (snd r)
      in case snd (snd r) of
           None \<Rightarrow> st\<lparr>fs_ctx := c5, fs_scdata := scdata1\<rparr>
         | Some i \<Rightarrow>
             remove_existing twoconnected i va vc
               (st\<lparr>fs_ctx := edge_count_dec (v2 (edge_at c5 ed3))
                                (edge_count_dec (v1 (edge_at c5 ed3)) c5),
                   fs_scdata := scdata1\<rparr>))"

definition new_triangle :: "bool \<Rightarrow> 32 word \<Rightarrow> nat \<Rightarrow> eref \<Rightarrow> eref \<Rightarrow> FillState \<Rightarrow> FillState" where
  "new_triangle twoconnected vertn a ed1 ed2 st =
     new_edge_v1v3 twoconnected vertn
       (v2 (edge_at (fs_ctx st) ed1)) (v2 (edge_at (fs_ctx st) ed2))
       (new_triangle_close twoconnected a ed1 ed2 st)"

text \<open>
  One turn of the \<^verbatim>\<open>while (sc->edge_first)\<close> loop at the scan-link \<open>a\<close>: either the loop
  is left (the list is empty, the two edges are degenerate and the loop breaks, or the
  bound on the number of faces is reached, where the source also sets \<^verbatim>\<open>a = verts\<close>), or
  the body runs and gives the next state.
\<close>

datatype sweep_exit = Exhausted | Degenerate | Bound

definition sweep_step ::
  "mathlib \<Rightarrow> bool \<Rightarrow> 32 word \<Rightarrow> 32 word \<Rightarrow> nat \<Rightarrow> FillState \<Rightarrow> sweep_exit + FillState" where
  "sweep_step M twoconnected vertn maxface a st =
     (case edge_list (fs_scdata st ! a) of
        [] \<Rightarrow> Inl Exhausted
      | ed1 # rest \<Rightarrow>
          if fs_totface st \<ge> maxface then Inl Bound
          else
            (case rest of
               [] \<Rightarrow> Inr (test_loose_edges a (single_edge a ed1 st))
             | ed2 # rest' \<Rightarrow>
                 (let c = fs_ctx st;
                      va = v2 (edge_at c ed1);
                      vb = v1 (edge_at c ed1);
                      vc = v2 (edge_at c ed2)
                  in if va = vb \<or> vb = vc then Inl Degenerate
                     else
                       (case find_best M c (fs_scdata st)
                               (xy (vert_at c va)) (xy (vert_at c vb)) (xy (vert_at c vc))
                               (min_ff (snd (xy (vert_at c va))) (snd (xy (vert_at c vc))))
                               [a + 1 ..< unat vertn] None (- 1) False of
                          Some best \<Rightarrow> Inr (test_loose_edges a (new_edge_to_best a ed2 vb best st))
                        | None \<Rightarrow>
                            Inr (test_loose_edges a (new_triangle twoconnected vertn a ed1 ed2 st))))))"

partial_function (option) sweep_while ::
  "mathlib \<Rightarrow> bool \<Rightarrow> 32 word \<Rightarrow> 32 word \<Rightarrow> nat \<Rightarrow> FillState \<Rightarrow> (FillState \<times> sweep_exit) option" where
  "sweep_while M twoconnected vertn maxface a st =
     (case sweep_step M twoconnected vertn maxface a st of
        Inl ex \<Rightarrow> Some (st, ex)
      | Inr st' \<Rightarrow> sweep_while M twoconnected vertn maxface a st')"

declare sweep_while.simps [code]

text \<open>The \<^verbatim>\<open>for\<close> loop over the scan-links; it ends early when the bound was reached.\<close>

fun sweep_for ::
  "mathlib \<Rightarrow> bool \<Rightarrow> 32 word \<Rightarrow> 32 word \<Rightarrow> nat list \<Rightarrow> FillState \<Rightarrow> FillState option" where
  "sweep_for M twoconnected vertn maxface [] st = Some st"
| "sweep_for M twoconnected vertn maxface (a # as) st =
     (case sweep_while M twoconnected vertn maxface a (connect_flags a st) of
        None \<Rightarrow> None
      | Some r \<Rightarrow>
          if snd r = Bound then Some (fst r) else sweep_for M twoconnected vertn maxface as (fst r))"

definition maxface_of :: "int \<Rightarrow> 32 word \<Rightarrow> 32 word" where
  "maxface_of flag vertn = (if flag_set flag BLI_SCANFILL_CALC_HOLES then 2 * vertn else vertn - 2)"

text \<open>
  Steps 0 and 1 of \<^verbatim>\<open>scanfill\<close>: the number \<^verbatim>\<open>verts\<close> of scan-links and the state in
  which the fill loop starts.
\<close>

definition scanfill_prepare ::
  "ScanFillContext \<Rightarrow> PolyFill \<Rightarrow> int \<Rightarrow> (fault + 32 word \<times> FillState) option" where
  "scanfill_prepare c pf flag =
     (let rd = flag_set flag BLI_SCANFILL_CALC_REMOVE_DOUBLES;
          c0 = (if rd then fold zero_len_edge (filledgebase c) c else c);
          cs = fold (collect_vert (nr pf)) (fillvertbase c0) (c0, []);
          vertn = (word_of_nat (length (snd cs)) :: 32 word);
          scdata = qsort (vergscdata (fst cs)) (unat vertn) (snd cs)
      in case insert_edges rd (unat vertn) (filledgebase (fst cs)) (fst cs, scdata) of
           None \<Rightarrow> None
         | Some (Inl e) \<Rightarrow> Some (Inl e)
         | Some (Inr cs2) \<Rightarrow>
             Some (Inr (vertn, \<lparr>fs_ctx = fst cs2, fs_scdata = snd cs2, fs_totface = 0\<rparr>)))"

definition scanfill ::
  "mathlib \<Rightarrow> ScanFillContext \<Rightarrow> PolyFill \<Rightarrow> int \<Rightarrow> (fault + 32 word \<times> ScanFillContext) option" where
  "scanfill M c pf flag =
     (case scanfill_prepare c pf flag of
        None \<Rightarrow> None
      | Some (Inl e) \<Rightarrow> Some (Inl e)
      | Some (Inr p) \<Rightarrow>
          (case sweep_for M (poly_f pf = SF_POLY_NEW) (fst p) (maxface_of flag (fst p))
                  [0 ..< unat (fst p)] (snd p) of
             None \<Rightarrow> None
           | Some st \<Rightarrow> Some (Inr (fs_totface st, fs_ctx st))))"

subsection \<open>The entry point \<^verbatim>\<open>BLI_scanfill_calc_ex\<close>\<close>

text \<open>The vertices of the edges become available.\<close>

definition mark_available :: "eref \<Rightarrow> ScanFillContext \<Rightarrow> ScanFillContext" where
  "mark_available eed c =
     vert_upd (v2 (edge_at c eed)) (\<lambda>r. r\<lparr>vert_f := SF_VERT_AVAILABLE\<rparr>)
       (vert_upd (v1 (edge_at c eed)) (\<lambda>r. r\<lparr>vert_f := SF_VERT_AVAILABLE\<rparr>) c)"

definition vert_available :: "ScanFillContext \<Rightarrow> bool" where
  "vert_available c = list_ex (\<lambda>eve. vert_f (vert_at c eve) = SF_VERT_AVAILABLE) (fillvertbase c)"

text \<open>Newell's method over the vertex list, skipping a vertex that doubles the previous one.\<close>

definition newell_step :: "ScanFillContext \<Rightarrow> vref \<Rightarrow> vec3 \<times> vec3 \<Rightarrow> vec3 \<times> vec3" where
  "newell_step c eve nv =
     (if \<not> compare_v3v3 (snd nv) (co (vert_at c eve)) SF_EPSILON
      then (add_newell_cross_v3_v3v3 (fst nv) (snd nv) (co (vert_at c eve)), co (vert_at c eve))
      else nv)"

definition newell_normal :: "ScanFillContext \<Rightarrow> vec3" where
  "newell_normal c =
     fst (fold (newell_step c) (fillvertbase c) ((0, 0, 0), co (vert_at c (last (fillvertbase c)))))"

definition project_vert :: "mat3 \<Rightarrow> vref \<Rightarrow> ScanFillContext \<Rightarrow> ScanFillContext" where
  "project_vert mat_2d eve c = vert_upd eve (\<lambda>r. r\<lparr>xy := mul_v2_m3v3 mat_2d (co r)\<rparr>) c"

text \<open>Step 1: one pass over the edges of the select-connected loop, and the loop.\<close>

definition flood_edge :: "16 word \<Rightarrow> eref \<Rightarrow> ScanFillContext \<times> bool \<Rightarrow> ScanFillContext \<times> bool" where
  "flood_edge poly eed cb =
     (let c = fst cb; e = edge_at c eed in
      if poly_nr (vert_at c (v1 e)) = SF_POLY_UNSET \<and> poly_nr (vert_at c (v2 e)) = poly then
        (edge_upd eed (\<lambda>r. r\<lparr>edge_poly_nr := poly\<rparr>) (vert_upd (v1 e) (\<lambda>r. r\<lparr>poly_nr := poly\<rparr>) c), True)
      else if poly_nr (vert_at c (v2 e)) = SF_POLY_UNSET \<and> poly_nr (vert_at c (v1 e)) = poly then
        (edge_upd eed (\<lambda>r. r\<lparr>edge_poly_nr := poly\<rparr>) (vert_upd (v2 e) (\<lambda>r. r\<lparr>poly_nr := poly\<rparr>) c), True)
      else if edge_poly_nr e = SF_POLY_UNSET
              \<and> poly_nr (vert_at c (v1 e)) = poly \<and> poly_nr (vert_at c (v2 e)) = poly then
        (edge_upd eed (\<lambda>r. r\<lparr>edge_poly_nr := poly\<rparr>) c, True)
      else cb)"

definition toggled :: "nat \<Rightarrow> 'a list \<Rightarrow> 'a list" where
  "toggled toggle xs = (if odd toggle then xs else rev xs)"

partial_function (option) flood_while :: "16 word \<Rightarrow> nat \<Rightarrow> ScanFillContext \<Rightarrow> ScanFillContext option" where
  "flood_while poly toggle c =
     (let cb = fold (flood_edge poly) (toggled (toggle + 1) (filledgebase c)) (c, False) in
      if snd cb then flood_while poly (toggle + 1) (fst cb) else Some (fst cb))"

declare flood_while.simps [code]

fun flood_verts ::
  "mat3 \<Rightarrow> vref list \<Rightarrow> ScanFillContext \<times> 16 word \<Rightarrow> (ScanFillContext \<times> 16 word) option" where
  "flood_verts mat_2d [] cp = Some cp"
| "flood_verts mat_2d (eve # rest) cp =
     (let c1 = project_vert mat_2d eve (fst cp) in
      if poly_nr (vert_at c1 eve) = SF_POLY_UNSET then
        (case flood_while (snd cp) 0 (vert_upd eve (\<lambda>r. r\<lparr>poly_nr := snd cp\<rparr>) c1) of
           None \<Rightarrow> None
         | Some c2 \<Rightarrow> flood_verts mat_2d rest (c2, snd cp + 1))
      else flood_verts mat_2d rest (c1, snd cp))"

definition count_polys ::
  "int \<Rightarrow> mat3 \<Rightarrow> ScanFillContext \<Rightarrow> (ScanFillContext \<times> 16 word) option" where
  "count_polys flag mat_2d c =
     (let poly = (if ctx_poly_nr c \<noteq> SF_POLY_UNSET then ctx_poly_nr c + 1 else 0);
          c0 = c\<lparr>ctx_poly_nr := SF_POLY_UNSET\<rparr>
      in if flag_set flag BLI_SCANFILL_CALC_POLYS \<and> poly = 0 then
           flood_verts mat_2d (fillvertbase c0) (c0, poly)
         else if poly \<noteq> 0 then
           Some (fold (project_vert mat_2d) (fillvertbase c0) c0, poly)
         else
           Some (fold (\<lambda>eed. edge_upd eed (\<lambda>r. r\<lparr>edge_poly_nr := 0\<rparr>)) (filledgebase c0)
                   (fold (\<lambda>eve c. vert_upd eve (\<lambda>r. r\<lparr>poly_nr := 0\<rparr>) (project_vert mat_2d eve c))
                      (fillvertbase c0) c0),
                 1))"

text \<open>
  Step 2 with the flag for loose geometry: the degrees are counted, and the call is given
  up (the result is \<open>True\<close>) when a degree read before its increment is above 250.
\<close>

fun count_edges_loose :: "eref list \<Rightarrow> ScanFillContext \<Rightarrow> bool \<times> ScanFillContext" where
  "count_edges_loose [] c = (False, c)"
| "count_edges_loose (eed # rest) c =
     (let a = v1 (edge_at c eed);
          old1 = edge_count (vert_at c a);
          c1 = edge_count_inc a c
      in if old1 > 250 then (True, c1)
         else
           (let b = v2 (edge_at c1 eed);
                old2 = edge_count (vert_at c1 b);
                c2 = edge_count_inc b c1
            in if old2 > 250 then (True, c2) else count_edges_loose rest c2))"

definition prune_edge :: "eref \<Rightarrow> ScanFillContext \<times> bool \<Rightarrow> ScanFillContext \<times> bool" where
  "prune_edge eed cb =
     (let c = fst cb; e = edge_at c eed in
      if edge_count (vert_at c (v1 e)) = 1 then
        ((edge_count_dec (v2 e) c)\<lparr>fillvertbase := remove1 (v1 e) (fillvertbase c),
                                   filledgebase := remove1 eed (filledgebase c)\<rparr>, True)
      else if edge_count (vert_at c (v2 e)) = 1 then
        ((edge_count_dec (v1 e) c)\<lparr>fillvertbase := remove1 (v2 e) (fillvertbase c),
                                   filledgebase := remove1 eed (filledgebase c)\<rparr>, True)
      else cb)"

partial_function (option) prune_while :: "nat \<Rightarrow> ScanFillContext \<Rightarrow> ScanFillContext option" where
  "prune_while toggle c =
     (let cb = fold prune_edge (toggled (toggle + 1) (filledgebase c)) (c, False) in
      if snd cb then prune_while (toggle + 1) (fst cb) else Some (fst cb))"

declare prune_while.simps [code]

definition count_edges_plain :: "eref \<Rightarrow> ScanFillContext \<Rightarrow> ScanFillContext" where
  "count_edges_plain eed c = edge_count_inc (v2 (edge_at c eed)) (edge_count_inc (v1 (edge_at c eed)) c)"

text \<open>Step 3: the array of islands.\<close>

definition polyfill_init :: "nat \<Rightarrow> PolyFill" where
  "polyfill_init a =
     \<lparr>edges = 0, verts = 0,
      min_xy = (100000000000000000000, 100000000000000000000),
      max_xy = (- 100000000000000000000, - 100000000000000000000),
      nr = word_of_nat a, poly_f = SF_POLY_NEW\<rparr>"

definition polyfill_edge :: "ScanFillContext \<Rightarrow> eref \<Rightarrow> PolyFill list \<Rightarrow> PolyFill list" where
  "polyfill_edge c eed pflist =
     (let i = unat (edge_poly_nr (edge_at c eed)) in
      pflist[i := (pflist ! i)\<lparr>edges := edges (pflist ! i) + 1\<rparr>])"

definition polyfill_vert :: "ScanFillContext \<Rightarrow> vref \<Rightarrow> PolyFill list \<Rightarrow> PolyFill list" where
  "polyfill_vert c eve pflist =
     (let ev = vert_at c eve;
          i = unat (poly_nr ev);
          pf = pflist ! i;
          pf1 = pf\<lparr>verts := verts pf + 1,
                   min_xy := (if fst (min_xy pf) < fst (xy ev) then fst (min_xy pf) else fst (xy ev),
                              if snd (min_xy pf) < snd (xy ev) then snd (min_xy pf) else snd (xy ev)),
                   max_xy := (if fst (max_xy pf) > fst (xy ev) then fst (max_xy pf) else fst (xy ev),
                              if snd (max_xy pf) > snd (xy ev) then snd (max_xy pf) else snd (xy ev))\<rparr>
      in pflist[i := (if edge_count ev > 2 then pf1\<lparr>poly_f := SF_POLY_VALID\<rparr> else pf1)])"

definition make_polyfill :: "ScanFillContext \<Rightarrow> 16 word \<Rightarrow> PolyFill list" where
  "make_polyfill c poly =
     fold (polyfill_vert c) (fillvertbase c)
       (fold (polyfill_edge c) (filledgebase c) (map polyfill_init [0 ..< unat poly]))"

text \<open>Step 4: the map from an island to the island it joins, and the joins.\<close>

definition target_map_step :: "PolyFill list \<Rightarrow> nat \<Rightarrow> nat \<Rightarrow> (nat \<Rightarrow> nat) \<Rightarrow> (nat \<Rightarrow> nat)" where
  "target_map_step pflist poly a target_map =
     (if target_map a \<noteq> a then target_map
      else fill_target_map_recursive pflist poly a a target_map)"

definition make_target_map :: "PolyFill list \<Rightarrow> nat \<Rightarrow> (nat \<Rightarrow> nat)" where
  "make_target_map pflist poly = fold (target_map_step pflist poly) [0 ..< poly] (\<lambda>i. i)"

definition join_step ::
  "(nat \<Rightarrow> nat) \<Rightarrow> nat \<Rightarrow> ScanFillContext \<times> PolyFill list \<Rightarrow> ScanFillContext \<times> PolyFill list" where
  "join_step target_map a cp =
     (if target_map a \<noteq> a then mergepolysSimp (fst cp) (snd cp) (target_map a) a else cp)"

definition join_polys ::
  "int \<Rightarrow> 16 word \<Rightarrow> ScanFillContext \<times> PolyFill list \<Rightarrow> ScanFillContext \<times> PolyFill list" where
  "join_polys flag poly cp =
     (if flag_set flag BLI_SCANFILL_CALC_HOLES \<and> poly > 1
      then fold (join_step (make_target_map (snd cp) (unat poly))) [0 ..< unat poly] cp
      else cp)"

text \<open>Step 5: the islands with more than one edge are filled, one after the other.\<close>

fun fill_polys ::
  "mathlib \<Rightarrow> int \<Rightarrow> PolyFill list \<Rightarrow> ScanFillContext \<Rightarrow> vref list \<Rightarrow> eref list \<Rightarrow> 32 word
     \<Rightarrow> (fault + 32 word \<times> ScanFillContext) option" where
  "fill_polys M flag [] c tempve temped totfaces =
     Some (Inr (totfaces, c\<lparr>fillvertbase := fillvertbase c @ tempve,
                             filledgebase := filledgebase c @ temped\<rparr>))"
| "fill_polys M flag (pf # rest) c tempve temped totfaces =
     (if edges pf > 1 then
        (let sp = splitlist c tempve temped (nr pf) in
         case scanfill M (fst sp) pf flag of
           None \<Rightarrow> None
         | Some (Inl e) \<Rightarrow> Some (Inl e)
         | Some (Inr r) \<Rightarrow>
             fill_polys M flag rest (snd r) (fst (snd sp)) (snd (snd sp)) (totfaces + fst r))
      else fill_polys M flag rest c tempve temped totfaces)"

text \<open>Steps 2 to 5, after the polygon numbers are known.\<close>

definition calc_fill ::
  "mathlib \<Rightarrow> int \<Rightarrow> 16 word \<Rightarrow> ScanFillContext \<Rightarrow> (fault + 32 word \<times> ScanFillContext) option" where
  "calc_fill M flag poly c =
     (let jp = join_polys flag poly (c, make_polyfill c poly);
          c1 = fst jp
      in fill_polys M flag (snd jp) (c1\<lparr>fillvertbase := [], filledgebase := []\<rparr>)
           (fillvertbase c1) (filledgebase c1) 0)"

definition calc_loose ::
  "mathlib \<Rightarrow> int \<Rightarrow> 16 word \<Rightarrow> ScanFillContext \<Rightarrow> (fault + 32 word \<times> ScanFillContext) option" where
  "calc_loose M flag poly c =
     (if flag_set flag BLI_SCANFILL_CALC_LOOSE then
        (let ce = count_edges_loose (filledgebase c) c in
         if fst ce then Some (Inr (0, snd ce))
         else
           (case testvertexnearedge M (snd ce) of
              Inl e \<Rightarrow> Some (Inl e)
            | Inr c2 \<Rightarrow>
                (case prune_while 0 c2 of
                   None \<Rightarrow> None
                 | Some c3 \<Rightarrow>
                     if filledgebase c3 = [] then Some (Inr (0, c3))
                     else calc_fill M flag poly c3)))
      else calc_fill M flag poly (fold count_edges_plain (filledgebase c) c))"

definition BLI_scanfill_calc_ex ::
  "mathlib \<Rightarrow> ScanFillContext \<Rightarrow> int \<Rightarrow> vec3 option \<Rightarrow> (fault + 32 word \<times> ScanFillContext) option" where
  "BLI_scanfill_calc_ex M sf_ctx flag nor_proj =
     (let c = fold mark_available (filledgebase sf_ctx) sf_ctx in
      if \<not> vert_available c then Some (Inr (0, c))
      else
        (let n = (case nor_proj of Some nor \<Rightarrow> nor | None \<Rightarrow> newell_normal c) in
         if fst (normalize_v3 M n) = 0 then Some (Inr (0, c))
         else
           (case count_polys flag (axis_dominant_v3_to_m3_negate M (snd (normalize_v3 M n))) c of
              None \<Rightarrow> None
            | Some cp \<Rightarrow> calc_loose M flag (snd cp) (fst cp))))"

definition BLI_scanfill_calc ::
  "mathlib \<Rightarrow> ScanFillContext \<Rightarrow> int \<Rightarrow> (fault + 32 word \<times> ScanFillContext) option" where
  "BLI_scanfill_calc M sf_ctx flag = BLI_scanfill_calc_ex M sf_ctx flag None"

definition BLI_scanfill_begin :: ScanFillContext where
  "BLI_scanfill_begin =
     \<lparr>vert_store = [], edge_store = [], fillvertbase = [], filledgebase = [], fillfacebase = [],
      ctx_poly_nr = SF_POLY_UNSET\<rparr>"

section \<open>Evaluation\<close>

text \<open>
  Concrete runs are evaluated by the simplifier with the definitions of the model and the
  equations of the loops.  \<open>let\<close> is evaluated argument first.
\<close>

lemmas scanfill_eval =
  SF_VERT_NEW_def SF_VERT_AVAILABLE_def SF_VERT_ZERO_LEN_def SF_EDGE_NEW_def SF_EDGE_INTERNAL_def
  SF_POLY_NEW_def SF_POLY_VALID_def SF_EPSILON_def SF_EPSILON_SQ_def SF_POLY_UNSET_def
  BLI_SCANFILL_CALC_REMOVE_DOUBLES_def BLI_SCANFILL_CALC_POLYS_def BLI_SCANFILL_CALC_HOLES_def
  BLI_SCANFILL_CALC_LOOSE_def flag_set_def vert_at_def edge_at_def vert_upd_def edge_upd_def
  vergscdata_def qsort_def bsearch_def bsearch_from.simps BLI_scanfill_vert_add_def
  BLI_scanfill_edge_add_def addfillface_def boundisect_def fill_target_map_recursive_def
  fill_target_map_loop.simps mergepolysSimp_def equals_v2v2_def compare_v2v2_def min_ff_def
  testedgeside_def edge_fac_def addedgetoscanvert_def swap_edge_def addedgetoscanlist_def
  boundinsideEV_def testvertexnearedge_def splitlist_def zero_len_edge_def collect_vert_def
  chase_endpoint_def zero_len_chase.simps insert_edge_plain_def remlink_sc_def addtail_edge_def
  edge_count_dec_def edge_count_inc_def edge_count_dec_gt1_def drop_loose_edge_def
  connect_flag_step_def connect_flags_def loose_edge_step_def test_loose_edges_def close_edge_def
  single_edge_def new_edge_to_best_def new_triangle_face_def new_triangle_close_def remove_existing_def
  new_edge_v1v3_def new_triangle_def sweep_step_def sweep_while.simps maxface_of_def
  scanfill_prepare_def scanfill_def
  mark_available_def vert_available_def newell_step_def newell_normal_def project_vert_def
  flood_edge_def toggled_def flood_while.simps count_polys_def prune_edge_def prune_while.simps
  count_edges_plain_def polyfill_init_def polyfill_edge_def polyfill_vert_def make_polyfill_def
  target_map_step_def make_target_map_def join_step_def join_polys_def calc_fill_def
  calc_loose_def BLI_scanfill_calc_ex_def BLI_scanfill_calc_def BLI_scanfill_begin_def
  Let_def upt_rec word_le_nat_alt word_less_nat_alt

subsection \<open>The vector helpers that are parameters\<close>

text \<open>
  Modelled from the spec: \<^verbatim>\<open>normalize_v3\<close>, \<^verbatim>\<open>axis_dominant_v3_to_m3_negate\<close>,
  \<^verbatim>\<open>dist_squared_to_line_v2\<close> and \<^verbatim>\<open>cos_v2v2v2\<close> of \<^verbatim>\<open>BLI_math\<close> are missing from the
  sources.  The normalisation gives the length and the unit vector, and length zero
  and the zero vector when the squared length is not above \<^verbatim>\<open>1.0e-35\<close>; the basis of the projection plane is the orthonormal one that
  \<^verbatim>\<open>ortho_basis_v3v3_v3\<close> builds around the negated normal, so that the two coordinates
  of a point are its components along the two axes in the plane and the normal itself
  goes to the origin; the distance is the squared one from the first point to the line
  through the two others; the cosine is the one of the angle at the second point between
  the first and the third.  The theorems about
  the model hold for every \<^typ>\<open>mathlib\<close>; the concrete runs below use this one, and none
  of them reaches the distance or the cosine.
\<close>

definition normalize_v3_spec :: "vec3 \<Rightarrow> real \<times> vec3" where
  "normalize_v3_spec n =
     (let d = fst n * fst n + fst (snd n) * fst (snd n) + snd (snd n) * snd (snd n) in
      if d > 1 / 10 ^ 35
      then (sqrt d, (fst n / sqrt d, fst (snd n) / sqrt d, snd (snd n) / sqrt d))
      else (0, (0, 0, 0)))"

definition ortho_basis_v3v3_v3_spec :: "vec3 \<Rightarrow> vec3 \<times> vec3" where
  "ortho_basis_v3v3_v3_spec n =
     (let n0 = fst n; n1 = fst (snd n); n2 = snd (snd n);
          f = n0 * n0 + n1 * n1;
          d = 1 / sqrt f;
          r1 = (n1 * d, - n0 * d, 0)
      in if f > 1 / 8388608
         then (r1, (- n2 * fst (snd r1), n2 * fst r1, n0 * fst (snd r1) - n1 * fst r1))
         else ((if n2 < 0 then - 1 else 1, 0, 0), (0, 1, 0)))"

definition axis_dominant_v3_to_m3_negate_spec :: "vec3 \<Rightarrow> mat3" where
  "axis_dominant_v3_to_m3_negate_spec normal =
     (let n = (- fst normal, - fst (snd normal), - snd (snd normal));
          r = ortho_basis_v3v3_v3_spec n;
          r1 = fst r; r2 = snd r
      in ((fst r1, fst r2, fst n),
          (fst (snd r1), fst (snd r2), fst (snd n)),
          (snd (snd r1), snd (snd r2), snd (snd n))))"

definition dist_squared_to_line_v2_spec :: "vec2 \<Rightarrow> vec2 \<Rightarrow> vec2 \<Rightarrow> real" where
  "dist_squared_to_line_v2_spec p l1 l2 =
     (let ux = fst l2 - fst l1; uy = snd l2 - snd l1;
          hx = fst p - fst l1; hy = snd p - snd l1;
          lambda = (ux * hx + uy * hy) / (ux * ux + uy * uy);
          dx = fst l1 + ux * lambda - fst p; dy = snd l1 + uy * lambda - snd p
      in dx * dx + dy * dy)"

definition normalize_v2_spec :: "vec2 \<Rightarrow> vec2" where
  "normalize_v2_spec a =
     (let d = fst a * fst a + snd a * snd a in
      if d > 1 / 10 ^ 35 then (fst a / sqrt d, snd a / sqrt d) else (0, 0))"

definition cos_v2v2v2_spec :: "vec2 \<Rightarrow> vec2 \<Rightarrow> vec2 \<Rightarrow> real" where
  "cos_v2v2v2_spec p1 p2 p3 =
     (let vec1 = normalize_v2_spec (fst p2 - fst p1, snd p2 - snd p1);
          vec2 = normalize_v2_spec (fst p2 - fst p3, snd p2 - snd p3)
      in fst vec1 * fst vec2 + snd vec1 * snd vec2)"

definition blender_math :: mathlib where
  "blender_math =
     \<lparr>normalize_v3 = normalize_v3_spec,
      axis_dominant_v3_to_m3_negate = axis_dominant_v3_to_m3_negate_spec,
      dist_squared_to_line_v2 = dist_squared_to_line_v2_spec,
      cos_v2v2v2 = cos_v2v2v2_spec\<rparr>"

lemmas blender_math_eval =
  blender_math_def normalize_v3_spec_def ortho_basis_v3v3_v3_spec_def
  axis_dominant_v3_to_m3_negate_spec_def

text \<open>A context as a caller builds it: the vertices are added, then the edges.\<close>

fun add_verts :: "vec3 list \<Rightarrow> ScanFillContext \<Rightarrow> ScanFillContext" where
  "add_verts [] c = c"
| "add_verts (p # ps) c = add_verts ps (snd (BLI_scanfill_vert_add c p))"

fun add_edges :: "(vref \<times> vref) list \<Rightarrow> ScanFillContext \<Rightarrow> ScanFillContext" where
  "add_edges [] c = c"
| "add_edges (e # es) c = add_edges es (snd (BLI_scanfill_edge_add c (fst e) (snd e)))"

definition fill_input :: "vec3 list \<Rightarrow> (vref \<times> vref) list \<Rightarrow> ScanFillContext" where
  "fill_input ps es = add_edges es (add_verts ps BLI_scanfill_begin)"

section \<open>Basic facts about the stores\<close>

lemma vert_upd_fields:
  "edge_store (vert_upd v g c) = edge_store c"
  "fillvertbase (vert_upd v g c) = fillvertbase c"
  "filledgebase (vert_upd v g c) = filledgebase c"
  "fillfacebase (vert_upd v g c) = fillfacebase c"
  "ctx_poly_nr (vert_upd v g c) = ctx_poly_nr c"
  "length (vert_store (vert_upd v g c)) = length (vert_store c)"
  "edge_at (vert_upd v g c) e = edge_at c e"
  by (simp_all add: vert_upd_def edge_at_def)

lemma edge_upd_fields:
  "vert_store (edge_upd e g c) = vert_store c"
  "fillvertbase (edge_upd e g c) = fillvertbase c"
  "filledgebase (edge_upd e g c) = filledgebase c"
  "fillfacebase (edge_upd e g c) = fillfacebase c"
  "ctx_poly_nr (edge_upd e g c) = ctx_poly_nr c"
  "length (edge_store (edge_upd e g c)) = length (edge_store c)"
  "vert_at (edge_upd e g c) v = vert_at c v"
  by (simp_all add: edge_upd_def vert_at_def)

lemma vert_at_vert_upd_other: "u \<noteq> v \<Longrightarrow> vert_at (vert_upd v g c) u = vert_at c u"
  by (simp add: vert_upd_def vert_at_def)

lemma edge_at_edge_upd_other: "d \<noteq> e \<Longrightarrow> edge_at (edge_upd e g c) d = edge_at c d"
  by (simp add: edge_upd_def edge_at_def)


lemma edge_list_remlink_sc:
  "a < length scdata \<Longrightarrow> edge_list (remlink_sc a ed scdata ! a) = remove1 ed (edge_list (scdata ! a))"
  by (simp add: remlink_sc_def)

lemma length_remlink_sc: "length (remlink_sc a ed scdata) = length scdata"
  by (simp add: remlink_sc_def)


section \<open>The order of the scan-links\<close>

lemma set_qsort_insert: "set (qsort_insert cmp x xs) = insert x (set xs)"
  by (induction xs) auto

lemma sorted_wrt_qsort_insert:
  assumes total: "\<And>a b. cmp a b \<le> 0 \<or> cmp b a \<le> 0"
    and trans: "\<And>a b d. cmp a b \<le> 0 \<Longrightarrow> cmp b d \<le> 0 \<Longrightarrow> cmp a d \<le> 0"
    and sorted: "sorted_wrt (\<lambda>a b. cmp a b \<le> 0) xs"
  shows "sorted_wrt (\<lambda>a b. cmp a b \<le> 0) (qsort_insert cmp x xs)"
  using sorted
proof (induction xs)
  case Nil
  then show ?case by simp
next
  case (Cons y ys)
  show ?case
  proof (cases "cmp x y \<le> 0")
    case True
    with Cons.prems show ?thesis by (auto intro: trans)
  next
    case False
    with total [of x y] have "cmp y x \<le> 0" by simp
    with False Cons show ?thesis by (auto simp: set_qsort_insert)
  qed
qed

lemma sorted_wrt_foldr_qsort_insert:
  assumes "\<And>a b. cmp a b \<le> 0 \<or> cmp b a \<le> 0"
    and "\<And>a b d. cmp a b \<le> 0 \<Longrightarrow> cmp b d \<le> 0 \<Longrightarrow> cmp a d \<le> 0"
  shows "sorted_wrt (\<lambda>a b. cmp a b \<le> 0) (foldr (qsort_insert cmp) xs [])"
proof (induction xs)
  case Nil
  then show ?case by simp
next
  case (Cons x xs)
  have "sorted_wrt (\<lambda>a b. cmp a b \<le> 0) (qsort_insert cmp x (foldr (qsort_insert cmp) xs []))"
    using assms(1) assms(2) Cons.IH by (rule sorted_wrt_qsort_insert)
  then show ?case by simp
qed

lemma length_qsort_insert: "length (qsort_insert cmp x xs) = Suc (length xs)"
  by (induction xs) auto

lemma length_foldr_qsort_insert: "length (foldr (qsort_insert cmp) xs []) = length xs"
  by (induction xs) (auto simp: length_qsort_insert)

lemma vergscdata_le:
  "vergscdata c x1 x2 \<le> 0 \<longleftrightarrow>
     snd (xy (vert_at c (vert x1))) > snd (xy (vert_at c (vert x2)))
     \<or> (snd (xy (vert_at c (vert x1))) = snd (xy (vert_at c (vert x2)))
        \<and> fst (xy (vert_at c (vert x1))) \<le> fst (xy (vert_at c (vert x2))))"
  by (auto simp: vergscdata_def Let_def)

definition two_in_a_row :: ScanFillContext where
  "two_in_a_row =
     \<lparr>vert_store =
        [\<lparr>tmp_v = None, co = (0, 0, 0), xy = (0, 0), keyindex = 0, poly_nr = 0,
          edge_count = 0, vert_f = 0, user_flag = 0\<rparr>,
         \<lparr>tmp_v = None, co = (1, 0, 0), xy = (1, 0), keyindex = 0, poly_nr = 0,
          edge_count = 0, vert_f = 0, user_flag = 0\<rparr>],
      edge_store = [], fillvertbase = [0, 1], filledgebase = [], fillfacebase = [],
      ctx_poly_nr = SF_POLY_UNSET\<rparr>"

text \<open>
  C3, as stated: of two scan-links in sorted order the first has the greater Y, or the same
  Y and a greater or equal X.  It fails for the vertices \<open>(0, 0)\<close> and \<open>(1, 0)\<close>: the
  sort puts \<open>(0, 0)\<close> first, which has the same Y and the smaller X.
\<close>

theorem scdata_order_counterexample:
  "\<not> (let s = qsort (vergscdata two_in_a_row) 2 [\<lparr>vert = 1, edge_list = []\<rparr>, \<lparr>vert = 0, edge_list = []\<rparr>];
           a = xy (vert_at two_in_a_row (vert (s ! 0)));
           b = xy (vert_at two_in_a_row (vert (s ! 1)))
       in snd a > snd b \<or> (snd a = snd b \<and> fst a \<ge> fst b))"
  by (simp add: two_in_a_row_def qsort_def vergscdata_def vert_at_def Let_def)

text \<open>
  C3, amended: the array of scan-links is sorted by descending Y and, for equal Y, by
  ascending X: of two scan-links in sorted order (among the \<open>n\<close> that are sorted) the
  first has the strictly greater Y, or the same Y and a smaller or equal X.
\<close>

theorem scdata_sorted:
  assumes "i < j" and "j < n" and "j < length base"
  shows "snd (xy (vert_at c (vert (qsort (vergscdata c) n base ! i))))
           > snd (xy (vert_at c (vert (qsort (vergscdata c) n base ! j))))
         \<or> (snd (xy (vert_at c (vert (qsort (vergscdata c) n base ! i))))
              = snd (xy (vert_at c (vert (qsort (vergscdata c) n base ! j))))
            \<and> fst (xy (vert_at c (vert (qsort (vergscdata c) n base ! i))))
              \<le> fst (xy (vert_at c (vert (qsort (vergscdata c) n base ! j)))))"
proof -
  let ?s = "foldr (qsort_insert (vergscdata c)) (take n base) []"
  have len: "length ?s = min (length base) n"
    by (simp add: length_foldr_qsort_insert)
  have "sorted_wrt (\<lambda>a b. vergscdata c a b \<le> 0) ?s"
    by (rule sorted_wrt_foldr_qsort_insert) (auto simp: vergscdata_le)
  moreover have "j < length ?s"
    using assms len by simp
  ultimately have "vergscdata c (?s ! i) (?s ! j) \<le> 0"
    using assms(1) by (simp add: sorted_wrt_iff_nth_less)
  moreover have "qsort (vergscdata c) n base ! i = ?s ! i" "qsort (vergscdata c) n base ! j = ?s ! j"
    using assms len by (simp_all add: qsort_def nth_append)
  ultimately show ?thesis
    by (simp add: vergscdata_le)
qed

theorem scdata_sorted_witness:
  "(0::nat) < 1 \<and> (1::nat) < 2
   \<and> 1 < length [\<lparr>vert = 1, edge_list = []\<rparr>, \<lparr>vert = 0, edge_list = []\<rparr>]
   \<and> (snd (xy (vert_at two_in_a_row (vert (qsort (vergscdata two_in_a_row) 2
             [\<lparr>vert = 1, edge_list = []\<rparr>, \<lparr>vert = 0, edge_list = []\<rparr>] ! 0))))
         = snd (xy (vert_at two_in_a_row (vert (qsort (vergscdata two_in_a_row) 2
             [\<lparr>vert = 1, edge_list = []\<rparr>, \<lparr>vert = 0, edge_list = []\<rparr>] ! 1))))
       \<and> fst (xy (vert_at two_in_a_row (vert (qsort (vergscdata two_in_a_row) 2
             [\<lparr>vert = 1, edge_list = []\<rparr>, \<lparr>vert = 0, edge_list = []\<rparr>] ! 0))))
         < fst (xy (vert_at two_in_a_row (vert (qsort (vergscdata two_in_a_row) 2
             [\<lparr>vert = 1, edge_list = []\<rparr>, \<lparr>vert = 0, edge_list = []\<rparr>] ! 1)))))"
  using scdata_sorted [of 0 1 2 "[\<lparr>vert = 1, edge_list = []\<rparr>, \<lparr>vert = 0, edge_list = []\<rparr>]" two_in_a_row]
  by (simp add: two_in_a_row_def qsort_def vergscdata_def vert_at_def Let_def)

section \<open>Concrete runs\<close>

definition square_in_loop_order :: ScanFillContext where
  "square_in_loop_order =
     fill_input [(0, 0, 0), (1, 0, 0), (1, 1, 0), (0, 1, 0)] [(0, 1), (1, 2), (2, 3), (3, 0)]"

definition square_out_of_loop_order :: ScanFillContext where
  "square_out_of_loop_order =
     fill_input [(0, 0, 0), (1, 1, 0), (1, 0, 0), (0, 1, 0)] [(0, 2), (2, 1), (1, 3), (3, 0)]"

text \<open>What a caller sees of a call: the count returned, the face list, the context.\<close>

definition calc_count :: "(fault + 32 word \<times> ScanFillContext) option \<Rightarrow> 32 word option" where
  "calc_count r = (case r of Some (Inr x) \<Rightarrow> Some (fst x) | _ \<Rightarrow> None)"

definition calc_faces :: "(fault + 32 word \<times> ScanFillContext) option \<Rightarrow> ScanFillFace list option" where
  "calc_faces r = (case r of Some (Inr x) \<Rightarrow> Some (fillfacebase (snd x)) | _ \<Rightarrow> None)"

text \<open>Two calls in succession, the second on the context the first one left.\<close>

definition calc_twice ::
  "mathlib \<Rightarrow> ScanFillContext \<Rightarrow> int \<Rightarrow> vec3 option \<Rightarrow> (32 word \<times> 32 word) option" where
  "calc_twice M c flag nor_proj =
     (case BLI_scanfill_calc_ex M c flag nor_proj of
        Some (Inr r1) \<Rightarrow>
          (case BLI_scanfill_calc_ex M (snd r1) flag nor_proj of
             Some (Inr r2) \<Rightarrow> Some (fst r1, fst r2)
           | _ \<Rightarrow> None)
      | _ \<Rightarrow> None)"

lemma square_in_loop_order_run:
  "calc_count (BLI_scanfill_calc blender_math square_in_loop_order 0) = Some 2
   \<and> calc_faces (BLI_scanfill_calc blender_math square_in_loop_order 0) = Some [(1, 2, 3), (1, 3, 0)]"
  by (simp add: calc_count_def calc_faces_def square_in_loop_order_def fill_input_def
      blender_math_eval scanfill_eval cong: let_weak_cong)

text \<open>
  C1, as stated, fails: the unit square with its four edges in counter-clockwise order,
  the points listed as \<open>(0,0), (1,1), (1,0), (0,1)\<close>, is a simple closed polygon of four
  vertices, and the call without any flag returns 0 triangles, not 2: the normal is
  computed over the vertex list and vanishes.
\<close>

theorem square_out_of_loop_order_counterexample:
  "calc_count (BLI_scanfill_calc blender_math square_out_of_loop_order 0) = Some 0
   \<and> calc_faces (BLI_scanfill_calc blender_math square_out_of_loop_order 0) = Some []"
  by (simp add: calc_count_def calc_faces_def square_out_of_loop_order_def fill_input_def
      blender_math_eval scanfill_eval cong: let_weak_cong)

definition overlapping_edges_input :: ScanFillContext where
  "overlapping_edges_input =
     fill_input [(2, 0, 0), (2, 2, 0), (2, 2, 0), (2, 2, 0), (2, 1, 0)]
       [(3, 4), (3, 1), (3, 2), (4, 0), (3, 1), (0, 2)]"

text \<open>
  C10 at a failing input: five points on a line, three of them at the same place, six
  edges, hole detection on and the normal \<open>(0, 0, 1)\<close> given.  The fourth face has the
  vertex 4 twice.
\<close>

theorem face_with_repeated_vertex:
  "calc_count (BLI_scanfill_calc_ex blender_math overlapping_edges_input BLI_SCANFILL_CALC_HOLES
      (Some (0, 0, 1))) = Some 4
   \<and> calc_faces (BLI_scanfill_calc_ex blender_math overlapping_edges_input BLI_SCANFILL_CALC_HOLES
      (Some (0, 0, 1))) = Some [(4, 3, 1), (1, 3, 2), (2, 3, 4), (4, 3, 4)]"
  by (simp add: calc_count_def calc_faces_def overlapping_edges_input_def fill_input_def
      blender_math_eval scanfill_eval cong: let_weak_cong)

definition two_triangles_input :: ScanFillContext where
  "two_triangles_input =
     fill_input [(0, 2, 0), (2, 3, 0), (1, 0, 0), (3, 2, 0), (2, 1, 0)]
       [(0, 4), (0, 3), (4, 2), (0, 2), (1, 0), (1, 3)]"

text \<open>
  C8, as stated, fails: two triangles that share a vertex.  The first call returns 2, the
  second call on the context as the first call left it returns 3.
\<close>

theorem second_call_counterexample:
  "calc_twice blender_math two_triangles_input 0 None = Some (2, 3)"
  by (simp add: calc_twice_def two_triangles_input_def fill_input_def
      blender_math_eval scanfill_eval cong: let_weak_cong)

section \<open>Nothing to fill\<close>

lemma mark_available_fields:
  "fillvertbase (mark_available e c) = fillvertbase c"
  "fillfacebase (mark_available e c) = fillfacebase c"
  "edge_at (mark_available e c) d = edge_at c d"
  by (simp_all add: mark_available_def vert_upd_fields)

lemma fold_mark_available_fields:
  "fillvertbase (fold mark_available es c) = fillvertbase c"
  "fillfacebase (fold mark_available es c) = fillfacebase c"
  "edge_at (fold mark_available es c) d = edge_at c d"
  by (induction es arbitrary: c) (simp_all add: mark_available_fields)

lemma vert_at_mark_available:
  "v1 (edge_at c e) \<noteq> u \<Longrightarrow> v2 (edge_at c e) \<noteq> u \<Longrightarrow> vert_at (mark_available e c) u = vert_at c u"
  by (simp add: mark_available_def vert_at_vert_upd_other vert_upd_fields)

lemma vert_at_fold_mark_available:
  "\<forall>e\<in>set es. v1 (edge_at c e) \<noteq> u \<and> v2 (edge_at c e) \<noteq> u \<Longrightarrow>
   vert_at (fold mark_available es c) u = vert_at c u"
proof (induction es arbitrary: c)
  case Nil
  then show ?case by simp
next
  case (Cons e es)
  have "vert_at (fold mark_available es (mark_available e c)) u = vert_at (mark_available e c) u"
    using Cons.prems by (intro Cons.IH) (simp add: mark_available_fields)
  also have "\<dots> = vert_at c u"
    using Cons.prems by (simp add: vert_at_mark_available)
  finally show ?case by simp
qed

lemma no_vert_available:
  assumes "\<forall>eve\<in>set (fillvertbase c). vert_f (vert_at c eve) \<noteq> SF_VERT_AVAILABLE
             \<and> (\<forall>eed\<in>set (filledgebase c). v1 (edge_at c eed) \<noteq> eve \<and> v2 (edge_at c eed) \<noteq> eve)"
  shows "\<not> vert_available (fold mark_available (filledgebase c) c)"
proof -
  have "vert_f (vert_at (fold mark_available (filledgebase c) c) eve) \<noteq> SF_VERT_AVAILABLE"
    if "eve \<in> set (fillvertbase c)" for eve
  proof -
    have "vert_at (fold mark_available (filledgebase c) c) eve = vert_at c eve"
      using assms that by (intro vert_at_fold_mark_available) blast
    with assms that show ?thesis by simp
  qed
  then show ?thesis
    by (auto simp: vert_available_def list_ex_iff fold_mark_available_fields)
qed

definition single_point :: ScanFillContext where
  "single_point = fill_input [(0, 0, 0)] []"

definition three_colinear :: ScanFillContext where
  "three_colinear = fill_input [(0, 0, 0), (1, 0, 0), (2, 0, 0)] [(0, 1), (1, 2), (2, 0)]"

definition three_nearly_colinear :: ScanFillContext where
  "three_nearly_colinear =
     fill_input [(0, 1, 0), (1, 1, 0), (1 + 1 / 131072, 1, 0)] [(0, 1), (1, 2), (2, 0)]"

lemma sqrt_two_to_minus_32: "sqrt (1 / 4294967296) = 1 / 65536"
  by (rule real_sqrt_unique) (simp_all add: power2_eq_square)

text \<open>
  C5, as stated, fails: the three points \<open>(0, 1, 0)\<close>, \<open>(1, 1, 0)\<close> and
  \<open>(1 + 1/131072, 1, 0)\<close> are on a line and are joined by an edge loop.  The last one is
  within \<^verbatim>\<open>SF_EPSILON\<close> of the one before, so Newell's sum skips it; the normal is not
  zero, and the call returns one triangle.
\<close>

theorem three_colinear_points_filled:
  "newell_normal (fold mark_available (filledgebase three_nearly_colinear) three_nearly_colinear)
     = (0, 0, 1 / 65536)
   \<and> calc_count (BLI_scanfill_calc blender_math three_nearly_colinear 0) = Some 1
   \<and> calc_faces (BLI_scanfill_calc blender_math three_nearly_colinear 0) = Some [(1, 2, 0)]"
  by (simp add: calc_count_def calc_faces_def three_nearly_colinear_def fill_input_def
      sqrt_two_to_minus_32 blender_math_eval scanfill_eval cong: let_weak_cong)

text \<open>
  C5, amended: when no vertex of the vertex list is an end of an edge (and none is flagged
  available already), or when the normal of the projection, given or computed by Newell's
  method over the vertex list, has length zero, the call returns 0 and the face list is as
  it was.  So it is for a single point with no edge and for the three points \<open>(0, 0, 0)\<close>,
  \<open>(1, 0, 0)\<close>, \<open>(2, 0, 0)\<close> joined by an edge loop, where the normal computed is zero;
  points on a line do not give the normal zero in every case.
\<close>

theorem calc_nothing_to_fill:
  assumes "(\<forall>eve\<in>set (fillvertbase c). vert_f (vert_at c eve) \<noteq> SF_VERT_AVAILABLE
              \<and> (\<forall>eed\<in>set (filledgebase c). v1 (edge_at c eed) \<noteq> eve \<and> v2 (edge_at c eed) \<noteq> eve))
           \<or> fst (normalize_v3 M (case nor_proj of Some nor \<Rightarrow> nor
                     | None \<Rightarrow> newell_normal (fold mark_available (filledgebase c) c))) = 0"
  shows "calc_count (BLI_scanfill_calc_ex M c flag nor_proj) = Some 0
         \<and> calc_faces (BLI_scanfill_calc_ex M c flag nor_proj) = Some (fillfacebase c)"
proof (cases "vert_available (fold mark_available (filledgebase c) c)")
  case False
  then show ?thesis
    by (simp add: BLI_scanfill_calc_ex_def calc_count_def calc_faces_def fold_mark_available_fields)
next
  case True
  with assms no_vert_available [of c]
  have "fst (normalize_v3 M (case nor_proj of Some nor \<Rightarrow> nor
                | None \<Rightarrow> newell_normal (fold mark_available (filledgebase c) c))) = 0"
    by blast
  with True show ?thesis
    by (simp add: BLI_scanfill_calc_ex_def calc_count_def calc_faces_def fold_mark_available_fields)
qed

theorem calc_nothing_to_fill_witness:
  "fillvertbase single_point = [0] \<and> filledgebase single_point = []
   \<and> calc_count (BLI_scanfill_calc_ex blender_math single_point 0 None) = Some 0
   \<and> calc_faces (BLI_scanfill_calc_ex blender_math single_point 0 None) = Some []
   \<and> fst (normalize_v3 blender_math
            (newell_normal (fold mark_available (filledgebase three_colinear) three_colinear))) = 0
   \<and> calc_count (BLI_scanfill_calc_ex blender_math three_colinear 0 None) = Some 0
   \<and> calc_faces (BLI_scanfill_calc_ex blender_math three_colinear 0 None) = Some []"
proof -
  have point: "fillvertbase single_point = [0]" "filledgebase single_point = []"
    "fillfacebase single_point = []" "vert_f (vert_at single_point 0) = 0"
    by (simp_all add: single_point_def fill_input_def scanfill_eval)
  have line: "fst (normalize_v3 blender_math
            (newell_normal (fold mark_available (filledgebase three_colinear) three_colinear))) = 0"
    "fillfacebase three_colinear = []"
    by (simp_all add: three_colinear_def fill_input_def blender_math_eval scanfill_eval
        cong: let_weak_cong)
  show ?thesis
    using calc_nothing_to_fill [of single_point blender_math None 0]
      calc_nothing_to_fill [of three_colinear blender_math None 0] point line
    by (simp add: SF_VERT_AVAILABLE_def)
qed

section \<open>Closing the second edge\<close>







lemma map_list_update_field:
  "map f (xs[v := g (xs ! v)]) = (map f xs)[v := f (g (xs ! v))]"
  by (simp add: map_update)










text \<open>
  The island of the unit square in loop order, filled with no flag: the context after the
  projection and the count of the degrees, the island, the context handed to
  \<^verbatim>\<open>scanfill\<close>, the state in which the fill loop starts, the state at the head of the
  first turn, and the state after the first triangle is added and the edges are closed.
\<close>

definition square_projected :: ScanFillContext where
  "square_projected =
     fold (\<lambda>eed. edge_upd eed (\<lambda>r. r\<lparr>edge_poly_nr := 0\<rparr>)) (filledgebase square_in_loop_order)
       (fold (\<lambda>eve c. vert_upd eve (\<lambda>r. r\<lparr>poly_nr := 0\<rparr>)
                 (project_vert (axis_dominant_v3_to_m3_negate blender_math (0, 0, 1)) eve c))
          (fillvertbase square_in_loop_order)
          ((fold mark_available (filledgebase square_in_loop_order) square_in_loop_order)
             \<lparr>ctx_poly_nr := SF_POLY_UNSET\<rparr>))"

definition square_counted :: ScanFillContext where
  "square_counted = fold count_edges_plain (filledgebase square_projected) square_projected"

definition square_island :: PolyFill where
  "square_island = hd (make_polyfill square_counted 1)"

definition square_island_ctx :: ScanFillContext where
  "square_island_ctx =
     fst (splitlist (square_counted\<lparr>fillvertbase := [], filledgebase := []\<rparr>)
            (fillvertbase square_counted) (filledgebase square_counted) (nr square_island))"

definition square_vert :: "vec3 \<Rightarrow> vec2 \<Rightarrow> 8 word \<Rightarrow> nat \<Rightarrow> ScanFillVert" where
  "square_vert p q n f =
     \<lparr>tmp_v = None, co = p, xy = q, keyindex = 0, poly_nr = 0, edge_count = n, vert_f = f,
      user_flag = 0\<rparr>"

definition square_edge :: "vref \<Rightarrow> vref \<Rightarrow> ScanFillEdge" where
  "square_edge x y =
     \<lparr>v1 = x, v2 = y, edge_poly_nr = 0, edge_f = SF_EDGE_NEW, edge_user_flag = 0, tmp_c = 0\<rparr>"

definition square_state ::
  "(8 word \<times> nat) list \<Rightarrow> eref list \<Rightarrow> ScanFillFace list \<Rightarrow> eref list \<Rightarrow> 32 word \<Rightarrow> FillState" where
  "square_state vs es fs l0 n =
     \<lparr>fs_ctx =
        \<lparr>vert_store =
           [square_vert (0, 0, 0) (0, 0) (fst (vs ! 0)) (snd (vs ! 0)),
            square_vert (1, 0, 0) (- 1, 0) (fst (vs ! 1)) (snd (vs ! 1)),
            square_vert (1, 1, 0) (- 1, 1) (fst (vs ! 2)) (snd (vs ! 2)),
            square_vert (0, 1, 0) (0, 1) (fst (vs ! 3)) (snd (vs ! 3))],
         edge_store = [square_edge 1 0, square_edge 2 1, square_edge 2 3, square_edge 3 0],
         fillvertbase = [0, 1, 2, 3], filledgebase = es, fillfacebase = fs,
         ctx_poly_nr = SF_POLY_UNSET\<rparr>,
      fs_scdata =
        [\<lparr>vert = 2, edge_list = l0\<rparr>, \<lparr>vert = 3, edge_list = [3]\<rparr>,
         \<lparr>vert = 1, edge_list = [0]\<rparr>, \<lparr>vert = 0, edge_list = []\<rparr>],
      fs_totface = n\<rparr>"

definition square_sweep_start :: FillState where
  "square_sweep_start = square_state [(2, 0), (2, 0), (2, 0), (2, 0)] [] [] [1, 2] 0"

definition square_first_turn :: FillState where
  "square_first_turn = square_state [(2, 0), (2, 1), (2, 0), (2, 1)] [] [] [1, 2] 0"

definition square_ed1_closed :: FillState where
  "square_ed1_closed = square_state [(2, 0), (1, 0), (1, 0), (2, 1)] [1] [(1, 2, 3)] [2] 1"

definition square_ed2_closed :: FillState where
  "square_ed2_closed = square_state [(2, 0), (1, 0), (0, 0), (1, 0)] [1, 2] [(1, 2, 3)] [] 1"

lemmas square_eval =
  square_island_def square_island_ctx_def square_counted_def square_projected_def
  square_vert_def square_edge_def square_state_def square_sweep_start_def square_first_turn_def
  square_ed1_closed_def square_ed2_closed_def square_in_loop_order_def fill_input_def

lemma square_island_reached:
  "BLI_scanfill_calc blender_math square_in_loop_order 0
     = fill_polys blender_math 0 [square_island]
         (square_counted\<lparr>fillvertbase := [], filledgebase := []\<rparr>)
         (fillvertbase square_counted) (filledgebase square_counted) 0"
  "fill_polys blender_math 0 [square_island]
         (square_counted\<lparr>fillvertbase := [], filledgebase := []\<rparr>)
         (fillvertbase square_counted) (filledgebase square_counted) 0
     = scanfill blender_math square_island_ctx square_island 0"
  by (simp_all add: square_eval blender_math_eval scanfill_eval cong: let_weak_cong)






section \<open>The bound on the degrees\<close>

text \<open>
  The degree of a vertex among the edges \<open>es\<close>: the number of ends of edges at it (an edge
  from a vertex to itself counts twice).
\<close>

definition degree :: "ScanFillContext \<Rightarrow> eref list \<Rightarrow> vref \<Rightarrow> nat" where
  "degree c es v =
     length (filter (\<lambda>e. v1 (edge_at c e) = v) es) + length (filter (\<lambda>e. v2 (edge_at c e) = v) es)"

lemma vert_at_vert_upd_same:
  "v < length (vert_store c) \<Longrightarrow> vert_at (vert_upd v g c) v = g (vert_at c v)"
  by (simp add: vert_upd_def vert_at_def)

lemma edge_count_inc_fields:
  "edge_at (edge_count_inc a c) e = edge_at c e"
  "length (vert_store (edge_count_inc a c)) = length (vert_store c)"
  "degree (edge_count_inc a c) es v = degree c es v"
  by (simp_all add: edge_count_inc_def vert_upd_fields degree_def)

lemma unat_edge_count_inc:
  assumes "a < length (vert_store c)" and "unat (edge_count (vert_at c a)) \<le> 251"
  shows "unat (edge_count (vert_at (edge_count_inc a c) v))
         = unat (edge_count (vert_at c v)) + (if v = a then 1 else 0)"
proof (cases "v = a")
  case True
  have "unat (edge_count (vert_at c a) + 1) = unat (edge_count (vert_at c a)) + 1"
    using assms(2) by (simp add: unat_word_ariths)
  with True assms(1) show ?thesis
    by (simp add: edge_count_inc_def vert_at_vert_upd_same)
next
  case False
  then show ?thesis
    by (simp add: edge_count_inc_def vert_at_vert_upd_other)
qed

lemma degree_Cons:
  "degree c (e # es) v
   = (if v1 (edge_at c e) = v then 1 else 0) + (if v2 (edge_at c e) = v then 1 else 0) + degree c es v"
  by (simp add: degree_def)

lemma count_edges_loose_counted:
  assumes "\<forall>e\<in>set es. v1 (edge_at c e) < length (vert_store c) \<and> v2 (edge_at c e) < length (vert_store c)"
    and "\<forall>v<length (vert_store c). unat (edge_count (vert_at c v)) \<le> 251"
  shows "fst (count_edges_loose es c)
         \<longleftrightarrow> (\<exists>v<length (vert_store c). 251 < unat (edge_count (vert_at c v)) + degree c es v)"
  using assms
proof (induction es arbitrary: c)
  case Nil
  then show ?case by (auto simp: degree_def)
next
  case (Cons e es)
  define a where "a = v1 (edge_at c e)"
  define b where "b = v2 (edge_at c e)"
  define n where "n = length (vert_store c)"
  define c1 where "c1 = edge_count_inc a c"
  define c2 where "c2 = edge_count_inc b c1"
  have an: "a < n" and bn: "b < n"
    using Cons.prems(1) by (simp_all add: a_def b_def n_def)
  have le: "unat (edge_count (vert_at c v)) \<le> 251" if "v < n" for v
    using Cons.prems(2) that by (simp add: n_def)
  have word250: "(250 < x) = (250 < unat x)" for x :: "8 word"
    by (simp add: word_less_nat_alt)
  have b1: "v2 (edge_at c1 e) = b"
    by (simp add: c1_def b_def edge_count_inc_fields)
  have cnt1: "unat (edge_count (vert_at c1 v)) = unat (edge_count (vert_at c v)) + (if v = a then 1 else 0)"
    for v
    unfolding c1_def using an le [OF an] by (intro unat_edge_count_inc) (simp_all add: n_def)
  have deg: "degree c (e # es) v = (if a = v then 1 else 0) + (if b = v then 1 else 0) + degree c es v"
    for v
    by (simp add: degree_Cons a_def b_def)
  show ?case
  proof (cases "250 < unat (edge_count (vert_at c a))")
    case True
    then have "fst (count_edges_loose (e # es) c)"
      by (simp add: Let_def a_def [symmetric] word250)
    moreover have "251 < unat (edge_count (vert_at c a)) + degree c (e # es) a"
      using True by (simp add: deg)
    ultimately show ?thesis
      using an by (auto simp: n_def)
  next
    case False
    then have le1: "unat (edge_count (vert_at c1 v)) \<le> 251" if "v < n" for v
      using le [OF that] by (simp add: cnt1)
    show ?thesis
    proof (cases "250 < unat (edge_count (vert_at c1 b))")
      case True
      then have "fst (count_edges_loose (e # es) c)"
        using False
        by (simp add: Let_def a_def [symmetric] c1_def [symmetric] b1 word250)
      moreover have "251 < unat (edge_count (vert_at c b)) + degree c (e # es) b"
        using True by (simp add: deg cnt1 split: if_splits)
      ultimately show ?thesis
        using bn by (auto simp: n_def)
    next
      case nb: False
      have len2: "length (vert_store c2) = n"
        by (simp add: c2_def c1_def n_def edge_count_inc_fields)
      have cnt2: "unat (edge_count (vert_at c2 v))
                  = unat (edge_count (vert_at c v)) + (if v = a then 1 else 0) + (if v = b then 1 else 0)"
        for v
      proof -
        have "unat (edge_count (vert_at c2 v))
              = unat (edge_count (vert_at c1 v)) + (if v = b then 1 else 0)"
          unfolding c2_def using bn le1 [OF bn]
          by (intro unat_edge_count_inc) (simp_all add: c1_def n_def edge_count_inc_fields)
        then show ?thesis by (simp add: cnt1)
      qed
      have step: "count_edges_loose (e # es) c = count_edges_loose es c2"
        using False nb
        by (simp add: Let_def a_def [symmetric] c1_def [symmetric] b1 c2_def [symmetric] word250)
      have "fst (count_edges_loose es c2)
            \<longleftrightarrow> (\<exists>v<length (vert_store c2). 251 < unat (edge_count (vert_at c2 v)) + degree c2 es v)"
      proof (rule Cons.IH)
        show "\<forall>e\<in>set es. v1 (edge_at c2 e) < length (vert_store c2)
                \<and> v2 (edge_at c2 e) < length (vert_store c2)"
          using Cons.prems(1) by (simp add: c2_def c1_def edge_count_inc_fields)
        show "\<forall>v<length (vert_store c2). unat (edge_count (vert_at c2 v)) \<le> 251"
          using nb le1 by (auto simp: len2 cnt2 cnt1 split: if_splits)
      qed
      moreover have "degree c2 es v = degree c es v" for v
        by (simp add: c2_def c1_def edge_count_inc_fields)
      then have "unat (edge_count (vert_at c2 v)) + degree c2 es v
                     = unat (edge_count (vert_at c v)) + degree c (e # es) v" for v
        by (simp add: cnt2 deg)
      ultimately show ?thesis
        unfolding step by (simp add: len2 n_def)
    qed
  qed
qed

lemma add_verts_stores:
  "vert_store (add_verts ps c)
     = vert_store c @ map (\<lambda>p. \<lparr>tmp_v = None, co = p, xy = (0, 0), keyindex = 0,
                                  poly_nr = ctx_poly_nr c, edge_count = 0, vert_f = SF_VERT_NEW,
                                  user_flag = 0\<rparr>) ps"
  "edge_store (add_verts ps c) = edge_store c"
  "filledgebase (add_verts ps c) = filledgebase c"
  "fillfacebase (add_verts ps c) = fillfacebase c"
  "ctx_poly_nr (add_verts ps c) = ctx_poly_nr c"
  by (induction ps arbitrary: c) (simp_all add: BLI_scanfill_vert_add_def Let_def)

lemma add_edges_stores:
  "vert_store (add_edges es c) = vert_store c"
  "edge_store (add_edges es c)
     = edge_store c @ map (\<lambda>e. \<lparr>v1 = fst e, v2 = snd e, edge_poly_nr = ctx_poly_nr c,
                                  edge_f = SF_EDGE_NEW, edge_user_flag = 0, tmp_c = 0\<rparr>) es"
  "ctx_poly_nr (add_edges es c) = ctx_poly_nr c"
  by (induction es arbitrary: c) (simp_all add: BLI_scanfill_edge_add_def Let_def)

lemma add_edges_filledgebase:
  "filledgebase (add_edges es c)
     = filledgebase c @ [length (edge_store c) ..< length (edge_store c) + length es]"
proof (induction es arbitrary: c)
  case Nil
  then show ?case by simp
next
  case (Cons e es)
  have "[length (edge_store c) ..< length (edge_store c) + length (e # es)]
        = length (edge_store c) # [Suc (length (edge_store c)) ..< Suc (length (edge_store c)) + length es]"
    by (subst upt_conv_Cons) simp_all
  then show ?case
    by (simp add: Cons.IH BLI_scanfill_edge_add_def Let_def)
qed

lemma fill_input_stores:
  "vert_store (fill_input ps es)
     = map (\<lambda>p. \<lparr>tmp_v = None, co = p, xy = (0, 0), keyindex = 0, poly_nr = SF_POLY_UNSET,
                  edge_count = 0, vert_f = SF_VERT_NEW, user_flag = 0\<rparr>) ps"
  "edge_store (fill_input ps es)
     = map (\<lambda>e. \<lparr>v1 = fst e, v2 = snd e, edge_poly_nr = SF_POLY_UNSET, edge_f = SF_EDGE_NEW,
                  edge_user_flag = 0, tmp_c = 0\<rparr>) es"
  "filledgebase (fill_input ps es) = [0 ..< length es]"
  by (simp_all add: fill_input_def add_edges_stores add_edges_filledgebase add_verts_stores
      BLI_scanfill_begin_def)

lemma length_filter_nth:
  "length (filter (\<lambda>i. P (xs ! i)) [0 ..< length xs]) = length (filter P xs)"
proof -
  have "filter P xs = filter P (map ((!) xs) [0 ..< length xs])"
    by (simp add: map_nth)
  also have "\<dots> = map ((!) xs) (filter (\<lambda>i. P (xs ! i)) [0 ..< length xs])"
    by (simp add: filter_map comp_def)
  finally show ?thesis by simp
qed

lemma degree_fill_input:
  "degree (fill_input ps es) (filledgebase (fill_input ps es)) v
     = length (filter (\<lambda>e. fst e = v) es) + length (filter (\<lambda>e. snd e = v) es)"
proof -
  let ?mk = "\<lambda>e. \<lparr>v1 = fst e, v2 = snd e, edge_poly_nr = SF_POLY_UNSET,
                    edge_f = SF_EDGE_NEW, edge_user_flag = 0, tmp_c = (0 :: nat)\<rparr>"
  have l: "filledgebase (fill_input ps es) = [0 ..< length (map ?mk es)]"
    by (simp add: fill_input_stores)
  have "length (filter (\<lambda>i. v1 (map ?mk es ! i) = v) [0 ..< length (map ?mk es)])
        = length (filter (\<lambda>e. v1 e = v) (map ?mk es))"
    "length (filter (\<lambda>i. v2 (map ?mk es ! i) = v) [0 ..< length (map ?mk es)])
        = length (filter (\<lambda>e. v2 e = v) (map ?mk es))"
    by (rule length_filter_nth)+
  then show ?thesis
    unfolding degree_def edge_at_def fill_input_stores l by (simp add: filter_map comp_def)
qed

lemma fill_input_ends:
  assumes "\<forall>e\<in>set es. fst e < length ps \<and> snd e < length ps"
  shows "\<forall>e\<in>set (filledgebase (fill_input ps es)).
          v1 (edge_at (fill_input ps es) e) < length (vert_store (fill_input ps es))
          \<and> v2 (edge_at (fill_input ps es) e) < length (vert_store (fill_input ps es))"
  using assms by (simp add: fill_input_stores edge_at_def)

lemma fill_input_edge_count:
  "\<forall>v<length (vert_store (fill_input ps es)). edge_count (vert_at (fill_input ps es) v) = 0"
  by (simp add: fill_input_stores vert_at_def)

text \<open>
  Three vertices and 252 edges: the edge from vertex 0 to vertex 1 250 times, and the two
  edges that close the triangle.  The degree of the vertices 0 and 1 is 251.
\<close>

definition fan_of_edges :: ScanFillContext where
  "fan_of_edges =
     fill_input [(0, 0, 0), (1, 0, 0), (0, 1, 0)] (replicate 250 (0, 1) @ [(1, 2), (2, 0)])"

text \<open>
  C6: the code does not give up the call at the first degree above 250.  The test reads a
  counter before it is incremented, so with all counters at zero on entry the call is
  given up exactly when some vertex is an end of edges more than 251 times: the degrees
  250 and 251 pass, against the message \<^verbatim>\<open>No vertices with 250 edges allowed!\<close> and
  against the claim.
\<close>

theorem count_edges_loose_aborts_iff:
  assumes "\<forall>e\<in>set es. v1 (edge_at c e) < length (vert_store c) \<and> v2 (edge_at c e) < length (vert_store c)"
    and "\<forall>v<length (vert_store c). edge_count (vert_at c v) = 0"
  shows "fst (count_edges_loose es c) \<longleftrightarrow> (\<exists>v<length (vert_store c). 251 < degree c es v)"
  using count_edges_loose_counted [OF assms(1)] assms(2) by (simp cong: conj_cong)

theorem count_edges_loose_aborts_iff_witness:
  "degree fan_of_edges (filledgebase fan_of_edges) 0 = 251
   \<and> degree fan_of_edges (filledgebase fan_of_edges) 1 = 251
   \<and> degree fan_of_edges (filledgebase fan_of_edges) 2 = 2
   \<and> length (vert_store fan_of_edges) = 3
   \<and> \<not> fst (count_edges_loose (filledgebase fan_of_edges) fan_of_edges)"
proof -
  let ?es = "replicate 250 (0 :: nat, 1 :: nat) @ [(1, 2), (2, 0)]"
  have deg: "degree fan_of_edges (filledgebase fan_of_edges) v
             = length (filter (\<lambda>e. fst e = v) ?es) + length (filter (\<lambda>e. snd e = v) ?es)" for v
    unfolding fan_of_edges_def by (rule degree_fill_input)
  have d: "degree fan_of_edges (filledgebase fan_of_edges) 0 = 251"
    "degree fan_of_edges (filledgebase fan_of_edges) 1 = 251"
    "degree fan_of_edges (filledgebase fan_of_edges) 2 = 2"
    by (simp_all add: deg)
  have n: "length (vert_store fan_of_edges) = 3"
    by (simp add: fan_of_edges_def fill_input_stores)
  have lt3: "v < 3 \<longleftrightarrow> v = 0 \<or> v = 1 \<or> v = 2" for v :: nat
    by auto
  have ends: "\<forall>e\<in>set (filledgebase fan_of_edges).
          v1 (edge_at fan_of_edges e) < length (vert_store fan_of_edges)
          \<and> v2 (edge_at fan_of_edges e) < length (vert_store fan_of_edges)"
    unfolding fan_of_edges_def by (rule fill_input_ends) auto
  have zero: "\<forall>v<length (vert_store fan_of_edges). edge_count (vert_at fan_of_edges v) = 0"
    unfolding fan_of_edges_def by (rule fill_input_edge_count)
  show ?thesis
    using count_edges_loose_aborts_iff [OF ends zero] d n
    by (auto simp: lt3)
qed

end
